theory Spec2Isabelle
  imports Main
begin

section \<open>JavaScript values used by the connector\<close>

text \<open>
  The connector exists in the repository in two versions:
  \<^item> \<^verbatim>\<open>src/unnamed/part_000\<close>, which has the private routine \<^verbatim>\<open>#waitForSDK\<close>;
    its definitions carry the suffix \<open>_part_000\<close> where the two files differ;
  \<^item> \<^verbatim>\<open>src/packages/connectors/src/metaMaskSDK.ts\<close>, which awaits the SDK's
    \<^verbatim>\<open>connect()\<close> for the account list; its definitions carry the suffix
    \<open>_metaMaskSDK_ts\<close>.
  Code that is the same in both files is embedded once.
\<close>

subsection \<open>Numbers and \<^verbatim>\<open>parseInt(s, 16)\<close>\<close>

text \<open>
  A JavaScript number, as far as \<^verbatim>\<open>parseInt\<close> can produce one: an integer that a
  double represents, an infinity, or NaN. The sign of zero is not represented
  (\<^verbatim>\<open>-0 === 0\<close> holds in JavaScript).
\<close>

datatype number = NaN | Num int | PosInfinity | NegInfinity

text \<open>\<^verbatim>\<open>a !== b\<close> on numbers: NaN differs from every number, itself included.\<close>

definition strict_neq :: "number \<Rightarrow> number \<Rightarrow> bool" where
  "strict_neq a b = (a = NaN \<or> b = NaN \<or> a \<noteq> b)"

fun bit_length :: "nat \<Rightarrow> nat" where
  "bit_length n = (if n = 0 then 0 else Suc (bit_length (n div 2)))"

declare bit_length.simps [simp del]

text \<open>
  The double nearest to a natural number (round to nearest, ties to even); \<open>None\<close>
  stands for an overflow to infinity.
\<close>

definition to_double :: "nat \<Rightarrow> nat option" where
  "to_double n =
     (if n < 2 ^ 53 then Some n
      else
        let e = bit_length n - 53;
            q = n div 2 ^ e;
            r = n mod 2 ^ e;
            h = 2 ^ (e - 1);
            q' = (if h < r \<or> (r = h \<and> odd q) then q + 1 else q);
            v = q' * 2 ^ e
        in if 2 ^ 1024 \<le> v then None else Some v)"

text \<open>
  Strings are lists of code units below 256. The white space \<^verbatim>\<open>parseInt\<close> skips
  is, in that range: TAB, LF, VT, FF, CR, SP and NBSP.
\<close>

definition is_white_space :: "char \<Rightarrow> bool" where
  "is_white_space c = ((of_char c :: nat) \<in> {9, 10, 11, 12, 13, 32, 160})"

definition hex_digit :: "char \<Rightarrow> nat option" where
  "hex_digit c =
     (let k = (of_char c :: nat) in
      if 48 \<le> k \<and> k \<le> 57 then Some (k - 48)
      else if 65 \<le> k \<and> k \<le> 70 then Some (k - 55)
      else if 97 \<le> k \<and> k \<le> 102 then Some (k - 87)
      else None)"

definition strip_sign :: "string \<Rightarrow> bool \<times> string" where
  "strip_sign s =
     (case s of
        c # cs \<Rightarrow>
          if c = CHR ''-'' then (True, cs)
          else if c = CHR ''+'' then (False, cs)
          else (False, s)
      | [] \<Rightarrow> (False, s))"

definition strip_prefix_0x :: "string \<Rightarrow> string" where
  "strip_prefix_0x s =
     (case s of
        a # b # cs \<Rightarrow>
          if a = CHR ''0'' \<and> (b = CHR ''x'' \<or> b = CHR ''X'') then cs else s
      | _ \<Rightarrow> s)"

definition hex_value :: "char list \<Rightarrow> nat" where
  "hex_value ds = foldl (\<lambda>acc d. 16 * acc + the (hex_digit d)) 0 ds"

text \<open>\<^verbatim>\<open>parseInt(s, 16)\<close> on a string.\<close>

definition parseInt_string :: "string \<Rightarrow> number" where
  "parseInt_string s =
     (let (negative, s1) = strip_sign (dropWhile is_white_space s);
          z = takeWhile (\<lambda>c. hex_digit c \<noteq> None) (strip_prefix_0x s1)
      in if z = [] then NaN
         else (case to_double (hex_value z) of
                 None \<Rightarrow> (if negative then NegInfinity else PosInfinity)
               | Some v \<Rightarrow> Num (if negative then - int v else int v)))"

text \<open>
  \<^verbatim>\<open>parseInt(providerChainId, 16)\<close> where the argument may be missing: a missing
  value is first converted to the string \<^verbatim>\<open>undefined\<close> (or \<^verbatim>\<open>null\<close>), which
  starts with no hexadecimal digit.
\<close>

definition parseInt :: "string option \<Rightarrow> number" where
  "parseInt v = (case v of None \<Rightarrow> parseInt_string ''undefined'' | Some s \<Rightarrow> parseInt_string s)"

subsection \<open>Thrown values\<close>

text \<open>
  A thrown value is an error object with a message and, when it has a numeric one, a
  \<^verbatim>\<open>code\<close> field; or one of the two viem errors the connector constructs around a
  caught error. Viem gives them the codes 4001 and -32002.
\<close>

datatype thrown =
    JsError string "number option"
  | UserRejectedRequestError thrown
  | ResourceUnavailableRpcError thrown

fun code :: "thrown \<Rightarrow> number option" where
  "code (JsError msg c) = c"
| "code (UserRejectedRequestError cause) = Some (Num 4001)"
| "code (ResourceUnavailableRpcError cause) = Some (Num (- 32002))"

section \<open>Providers and their listeners\<close>

type_synonym provider_id = nat

datatype handler = onAccountsChanged | onChainChanged | onDisconnect | Foreign nat

text \<open>
  The listener tables of all providers, as one list in order of subscription:
  \<open>(p, event, h)\<close> says that \<open>h\<close> is subscribed to \<open>event\<close> on provider \<open>p\<close>. The
  providers are event emitters: \<^verbatim>\<open>on\<close> appends a subscription even when the same one
  is there already, \<^verbatim>\<open>removeListener\<close> removes the most recent matching
  subscription and does nothing when there is none.
\<close>

type_synonym listener = "provider_id \<times> string \<times> handler"

definition remove_last :: "'a \<Rightarrow> 'a list \<Rightarrow> 'a list" where
  "remove_last x xs = rev (remove1 x (rev xs))"

definition provider_on :: "provider_id \<Rightarrow> string \<Rightarrow> handler \<Rightarrow> listener list \<Rightarrow> listener list" where
  "provider_on p event h ls = ls @ [(p, event, h)]"

definition provider_removeListener ::
  "provider_id \<Rightarrow> string \<Rightarrow> handler \<Rightarrow> listener list \<Rightarrow> listener list" where
  "provider_removeListener p event h ls = remove_last (p, event, h) ls"

section \<open>The connector's state\<close>

text \<open>The options object the constructor hands to the base class.\<close>

record base_options =
  name :: string
  shimDisconnect :: bool
  getProvider_option :: "provider_id option"

text \<open>
  The fields \<^verbatim>\<open>connect\<close>, \<^verbatim>\<open>disconnect\<close>, \<^verbatim>\<open>getProvider\<close> and the resync routine
  read and write: the private \<^verbatim>\<open>#provider\<close> and \<^verbatim>\<open>#debug\<close>, the base class's
  \<^verbatim>\<open>options\<close> and \<^verbatim>\<open>storage\<close> (both may be undefined: the code reads them with
  \<^verbatim>\<open>?.\<close>), and the listener tables of the providers.
\<close>

record state =
  this_provider :: "provider_id option"
  this_debug :: bool
  this_options :: "base_options option"
  this_storage :: "(string \<rightharpoonup> bool) option"
  listeners :: "listener list"

section \<open>Collaborators\<close>

text \<open>
  The wallet SDK, the providers and the base connector class are outside the connector.
  What they answer during one call of a connector method is the call's environment:
  \<^item> \<open>isInitialized\<close>: what \<^verbatim>\<open>sdk.isInitialized()\<close> returns;
  \<^item> \<open>init\<close>: the error \<^verbatim>\<open>sdk.init()\<close> rejects with, or \<open>None\<close> when it resolves;
  \<^item> \<open>sdk_connect\<close>: how the promise of \<^verbatim>\<open>sdk.connect()\<close> settles;
  \<^item> \<open>connection\<close>: \<open>None\<close> when \<^verbatim>\<open>sdk._getConnection()\<close> is undefined, otherwise
    what its \<^verbatim>\<open>isAuthorized()\<close> returns;
  \<^item> \<open>isExtensionActive\<close>: what \<^verbatim>\<open>sdk.isExtensionActive()\<close> returns;
  \<^item> \<open>signals\<close>: the signals the SDK and its connection emit, in order, from the moment
    the connector waits for authorization;
  \<^item> \<open>sdk_getProvider\<close>: what \<^verbatim>\<open>sdk.getProvider()\<close> returns (it may be undefined);
  \<^item> \<open>eth_requestAccounts\<close>, \<open>eth_chainId\<close>: how a provider's \<^verbatim>\<open>request\<close> settles
    for these two methods (a resolved value may be missing);
  \<^item> \<open>provider_chainId\<close>: a provider's readable \<^verbatim>\<open>chainId\<close> field;
  \<^item> \<open>switchChain\<close>, \<open>isChainUnsupported\<close>, \<open>isUserRejectedRequestError\<close>,
    \<open>shimDisconnectKey\<close>: the base class's members of these names; \<open>switchChain\<close>
    gives the \<^verbatim>\<open>id\<close> of the chain it resolves to.
  Synchronous calls of collaborators are taken not to throw, and of the awaited
  promises only the authorization wait is taken to be able to stay pending for ever.
\<close>

datatype signal = PROVIDER_UPDATE | AUTHORIZED

record env =
  isInitialized :: bool
  init :: "thrown option"
  sdk_connect :: "thrown + string list option"
  connection :: "bool option"
  isExtensionActive :: bool
  signals :: "signal list"
  sdk_getProvider :: "provider_id option"
  eth_requestAccounts :: "provider_id \<Rightarrow> thrown + string list option"
  provider_chainId :: "provider_id \<Rightarrow> string option"
  eth_chainId :: "provider_id \<Rightarrow> thrown + string option"
  switchChain :: "number \<Rightarrow> thrown + number"
  isChainUnsupported :: "number \<Rightarrow> bool"
  isUserRejectedRequestError :: "thrown \<Rightarrow> bool"
  shimDisconnectKey :: string

text \<open>The arguments of the constructor.\<close>

type_synonym sdk_id = nat

record sdk_options =
  dappMetadata_name :: "string option"
  underscore_source :: "string option"

record connector_options =
  debug :: "bool option"
  sdk :: "sdk_id option"
  sdkOptions :: "sdk_options option"

datatype sdk_instance = Supplied sdk_id | Constructed "sdk_options option"

section \<open>Calls, completions and tasks\<close>

text \<open>The calls a connector method makes, recorded in the order it makes them.\<close>

datatype action =
    New_MetaMaskSDK "sdk_options option"
  | Call_super base_options
  | Sdk_isInitialized
  | Sdk_init
  | Sdk_connect
  | Sdk_terminate
  | Sdk_getProvider
  | Sdk_isExtensionActive
  | Sdk_isAuthorized
  | Sdk_once_PROVIDER_UPDATE
  | Connector_once_AUTHORIZED
  | Console_log string
  | Call_waitForSDK
  | Call_waitForAuthorized
  | Resolved_wait
  | Call_updateProviderListeners
  | RemoveListener provider_id string handler
  | On provider_id string handler
  | Request provider_id string
  | Read_chainId provider_id
  | Call_parseInt "string option"
  | Call_switchChain number
  | Call_isChainUnsupported number
  | Storage_setItem string bool
  | Storage_removeItem string
  | Call_super_disconnect

text \<open>
  An asynchronous method either returns a value, throws (its promise rejects), or stays
  pending for ever. It runs on the connector's state and the record of calls, and what
  it changed before throwing or hanging stays changed.
\<close>

datatype 'a completion = Returns 'a | Throws thrown | Hangs

type_synonym config = "state \<times> action list"

type_synonym 'a task = "config \<Rightarrow> 'a completion \<times> config"

definition task_return :: "'a \<Rightarrow> 'a task" where
  "task_return x c = (Returns x, c)"

definition task_throw :: "thrown \<Rightarrow> 'a task" where
  "task_throw e c = (Throws e, c)"

definition task_hang :: "'a task" where
  "task_hang c = (Hangs, c)"

definition and_then :: "'a task \<Rightarrow> ('a \<Rightarrow> 'b task) \<Rightarrow> 'b task" where
  "and_then m f c =
     (case m c of
        (Returns x, c') \<Rightarrow> f x c'
      | (Throws e, c') \<Rightarrow> (Throws e, c')
      | (Hangs, c') \<Rightarrow> (Hangs, c'))"

definition try_catch :: "'a task \<Rightarrow> (thrown \<Rightarrow> 'a task) \<Rightarrow> 'a task" where
  "try_catch m handler c =
     (case m c of
        (Throws e, c') \<Rightarrow> handler e c'
      | (Returns x, c') \<Rightarrow> (Returns x, c')
      | (Hangs, c') \<Rightarrow> (Hangs, c'))"

definition await :: "thrown + 'a \<Rightarrow> 'a task" where
  "await settled = (case settled of Inl e \<Rightarrow> task_throw e | Inr v \<Rightarrow> task_return v)"

definition record_action :: "action \<Rightarrow> unit task" where
  "record_action a c = (Returns (), (fst c, snd c @ [a]))"

definition read_state :: "state task" where
  "read_state c = (Returns (fst c), c)"

definition update_state :: "(state \<Rightarrow> state) \<Rightarrow> unit task" where
  "update_state f c = (Returns (), (f (fst c), snd c))"

section \<open>The listener resync: \<^verbatim>\<open>#updateProviderListeners\<close>\<close>

text \<open>
  The routine is the same in both files. It is a fixed sequence of statements, each of
  which is one step here: the three \<^verbatim>\<open>this.#provider?.removeListener(...)\<close> when
  \<^verbatim>\<open>this.#provider\<close> is set, \<^verbatim>\<open>this.#provider = this.#sdk.getProvider()\<close>, and the
  three \<^verbatim>\<open>this.#provider?.on(...)\<close>.
\<close>

definition removeListener_step :: "string \<Rightarrow> handler \<Rightarrow> config \<Rightarrow> config" where
  "removeListener_step event h c =
     (case this_provider (fst c) of
        None \<Rightarrow> c
      | Some p \<Rightarrow>
          ((fst c)\<lparr>listeners := provider_removeListener p event h (listeners (fst c))\<rparr>,
           snd c @ [RemoveListener p event h]))"

definition refresh_step :: "provider_id option \<Rightarrow> config \<Rightarrow> config" where
  "refresh_step from_sdk c = ((fst c)\<lparr>this_provider := from_sdk\<rparr>, snd c @ [Sdk_getProvider])"

definition on_step :: "string \<Rightarrow> handler \<Rightarrow> config \<Rightarrow> config" where
  "on_step event h c =
     (case this_provider (fst c) of
        None \<Rightarrow> c
      | Some p \<Rightarrow>
          ((fst c)\<lparr>listeners := provider_on p event h (listeners (fst c))\<rparr>,
           snd c @ [On p event h]))"

definition updateProviderListeners_steps ::
  "provider_id option \<Rightarrow> state \<Rightarrow> (config \<Rightarrow> config) list" where
  "updateProviderListeners_steps from_sdk s =
     (if this_provider s \<noteq> None
      then [removeListener_step ''accountsChanged'' onAccountsChanged,
            removeListener_step ''chainChanged'' onChainChanged,
            removeListener_step ''disconnect'' onDisconnect]
      else [])
     @ [refresh_step from_sdk,
        on_step ''accountsChanged'' onAccountsChanged,
        on_step ''chainChanged'' onChainChanged,
        on_step ''disconnect'' onDisconnect]"

definition run_steps :: "(config \<Rightarrow> config) list \<Rightarrow> config \<Rightarrow> config" where
  "run_steps steps c = foldl (\<lambda>c' step. step c') c steps"

definition updateProviderListeners :: "provider_id option \<Rightarrow> unit task" where
  "updateProviderListeners from_sdk c =
     (Returns (),
      run_steps (updateProviderListeners_steps from_sdk (fst c))
        (fst c, snd c @ [Call_updateProviderListeners]))"

section \<open>The authorization wait\<close>

text \<open>
  The promise a wait returns, with the one-shot listeners that can resolve it:
  \<open>outcome\<close> is the value it resolved with (\<open>None\<close> while pending), \<open>resolve_calls\<close>
  the arguments of every call of its \<^verbatim>\<open>resolve\<close>, and the two flags say whether the
  one-shot listener for the SDK's \<^verbatim>\<open>PROVIDER_UPDATE\<close> and the one for the
  connection's \<^verbatim>\<open>AUTHORIZED\<close> are registered. Resolving a resolved promise again
  leaves its value.
\<close>

record wait_cell =
  outcome :: "bool option"
  resolve_calls :: "bool list"
  sdk_once :: bool
  connector_once :: bool

definition resolve :: "bool \<Rightarrow> wait_cell \<Rightarrow> wait_cell" where
  "resolve v cell =
     cell\<lparr>outcome := (case outcome cell of None \<Rightarrow> Some v | Some w \<Rightarrow> Some w),
          resolve_calls := resolve_calls cell @ [v]\<rparr>"

text \<open>
  A signal reaches the one-shot listener registered for it, which is removed and calls
  \<^verbatim>\<open>resolve(true)\<close> (for \<^verbatim>\<open>AUTHORIZED\<close> through the inner promise of
  \<^verbatim>\<open>waitForAuthorized\<close> and its \<^verbatim>\<open>then\<close>).
\<close>

fun deliver :: "signal \<Rightarrow> wait_cell \<Rightarrow> wait_cell" where
  "deliver PROVIDER_UPDATE cell =
     (if sdk_once cell then resolve True (cell\<lparr>sdk_once := False\<rparr>) else cell)"
| "deliver AUTHORIZED cell =
     (if connector_once cell then resolve True (cell\<lparr>connector_once := False\<rparr>) else cell)"

definition deliver_all :: "signal list \<Rightarrow> wait_cell \<Rightarrow> wait_cell" where
  "deliver_all sigs cell = foldl (\<lambda>cell' s. deliver s cell') cell sigs"

text \<open>
  The executor of the promise of \<^verbatim>\<open>#waitForSDK\<close> (part_000, lines 99 to 125): it
  subscribes to \<^verbatim>\<open>PROVIDER_UPDATE\<close>, then resolves at once when the connection says it
  is authorized, and otherwise subscribes to \<^verbatim>\<open>AUTHORIZED\<close> on the connection's
  connector, if there is a connection.
\<close>

definition waitForSDK_executor :: "bool option \<Rightarrow> wait_cell" where
  "waitForSDK_executor conn =
     (let cell = \<lparr>outcome = None, resolve_calls = [], sdk_once = True, connector_once = False\<rparr>
      in if conn = Some True then resolve True cell
         else (case conn of
                 None \<Rightarrow> cell
               | Some authorized \<Rightarrow> cell\<lparr>connector_once := True\<rparr>))"

definition waitForSDK_cell :: "bool option \<Rightarrow> signal list \<Rightarrow> wait_cell" where
  "waitForSDK_cell conn sigs = deliver_all sigs (waitForSDK_executor conn)"

definition waitForSDK :: "env \<Rightarrow> bool task" where
  "waitForSDK e =
     and_then (record_action Call_waitForSDK) (\<lambda>_.
     and_then read_state (\<lambda>s.
     and_then (if this_debug s
               then record_action (Console_log ''MetaMaskSDKConnector waiting for SDK validation'')
               else task_return ()) (\<lambda>_.
     and_then (record_action Sdk_once_PROVIDER_UPDATE) (\<lambda>_.
     and_then (record_action Sdk_isAuthorized) (\<lambda>_.
     and_then (if connection e = Some True \<or> connection e = None then task_return ()
               else record_action Connector_once_AUTHORIZED) (\<lambda>_.
     (case outcome (waitForSDK_cell (connection e) (signals e)) of
        None \<Rightarrow> task_hang
      | Some v \<Rightarrow> and_then (record_action Resolved_wait) (\<lambda>_. task_return v))))))))"

text \<open>
  The promise of \<^verbatim>\<open>waitForAuthorized\<close> in metaMaskSDK.ts (lines 133 to 143): only the
  one-shot \<^verbatim>\<open>authorized\<close> listener, registered if there is a connection.
\<close>

definition waitForAuthorized_cell :: "bool option \<Rightarrow> signal list \<Rightarrow> wait_cell" where
  "waitForAuthorized_cell conn sigs =
     deliver_all sigs
       \<lparr>outcome = None, resolve_calls = [], sdk_once = False, connector_once = (conn \<noteq> None)\<rparr>"

definition waitForAuthorized :: "env \<Rightarrow> bool task" where
  "waitForAuthorized e =
     and_then (record_action Call_waitForAuthorized) (\<lambda>_.
     and_then (if connection e = None then task_return ()
               else record_action Connector_once_AUTHORIZED) (\<lambda>_.
     (case outcome (waitForAuthorized_cell (connection e) (signals e)) of
        None \<Rightarrow> task_hang
      | Some v \<Rightarrow> and_then (record_action Resolved_wait) (\<lambda>_. task_return v))))"

section \<open>\<^verbatim>\<open>getProvider\<close> and \<^verbatim>\<open>disconnect\<close>\<close>

definition ensure_initialized :: "env \<Rightarrow> unit task" where
  "ensure_initialized e =
     and_then (record_action Sdk_isInitialized) (\<lambda>_.
     if \<not> isInitialized e
     then and_then (record_action Sdk_init) (\<lambda>_.
            (case init e of None \<Rightarrow> task_return () | Some err \<Rightarrow> task_throw err))
     else task_return ())"

definition getProvider :: "env \<Rightarrow> provider_id option task" where
  "getProvider e =
     and_then (ensure_initialized e) (\<lambda>_.
     and_then read_state (\<lambda>s.
     and_then (if this_provider s = None
               then and_then (record_action Sdk_getProvider) (\<lambda>_.
                      update_state (\<lambda>s'. s'\<lparr>this_provider := sdk_getProvider e\<rparr>))
               else task_return ()) (\<lambda>_.
     and_then read_state (\<lambda>s'. task_return (this_provider s')))))"

text \<open>
  Modelled from the spec: the base class's \<^verbatim>\<open>disconnect\<close> (\<^verbatim>\<open>./injected\<close> is not
  among the sources), which "clears the persisted flag and its own listener state": it
  takes the three handlers off the connector's provider and removes the
  shim-disconnect key from the storage.
\<close>

definition super_disconnect :: "env \<Rightarrow> unit task" where
  "super_disconnect e =
     and_then (record_action Call_super_disconnect) (\<lambda>_.
     and_then (\<lambda>c. (Returns (),
                 run_steps [removeListener_step ''accountsChanged'' onAccountsChanged,
                            removeListener_step ''chainChanged'' onChainChanged,
                            removeListener_step ''disconnect'' onDisconnect] c)) (\<lambda>_.
     and_then read_state (\<lambda>s.
     (case this_storage s of
        None \<Rightarrow> task_return ()
      | Some m \<Rightarrow>
          and_then (record_action (Storage_removeItem (shimDisconnectKey e))) (\<lambda>_.
          update_state (\<lambda>s'. s'\<lparr>this_storage := Some (m(shimDisconnectKey e := None))\<rparr>))))))"

definition disconnect :: "env \<Rightarrow> unit task" where
  "disconnect e = and_then (record_action Sdk_terminate) (\<lambda>_. super_disconnect e)"

section \<open>\<^verbatim>\<open>connect\<close>\<close>

record chain_descriptor =
  chain_id :: number
  unsupported :: bool

record connect_response =
  isConnected :: bool
  account :: string
  chain :: chain_descriptor
  provider :: "provider_id option"

text \<open>\<^verbatim>\<open>accounts?.[0] ?? '0x'\<close>\<close>

definition selectedAccount :: "string list option \<Rightarrow> string" where
  "selectedAccount accounts =
     (case accounts of
        None \<Rightarrow> ''0x''
      | Some [] \<Rightarrow> ''0x''
      | Some (first # others) \<Rightarrow> first)"

text \<open>
  \<^verbatim>\<open>await this.#provider?.request({ method, params: [] })\<close>: without a provider the
  awaited value is undefined and no request is made.
\<close>

definition provider_request ::
  "string \<Rightarrow> (provider_id \<Rightarrow> thrown + 'a option) \<Rightarrow> 'a option task" where
  "provider_request method answer =
     and_then read_state (\<lambda>s.
     (case this_provider s of
        None \<Rightarrow> task_return None
      | Some p \<Rightarrow> and_then (record_action (Request p method)) (\<lambda>_. await (answer p))))"

text \<open>
  \<^verbatim>\<open>let providerChainId = this.#provider?.chainId\<close>, and the request of
  \<^verbatim>\<open>eth_chainId\<close> when that is falsy (missing or the empty string).
\<close>

definition read_providerChainId :: "env \<Rightarrow> string option task" where
  "read_providerChainId e =
     and_then read_state (\<lambda>s.
     and_then (case this_provider s of
                 None \<Rightarrow> task_return None
               | Some p \<Rightarrow> and_then (record_action (Read_chainId p)) (\<lambda>_.
                            task_return (provider_chainId e p))) (\<lambda>providerChainId.
     if providerChainId = None \<or> providerChainId = Some []
     then provider_request ''eth_chainId'' (eth_chainId e)
     else task_return providerChainId))"

text \<open>
  \<^verbatim>\<open>if (this.options?.shimDisconnect) this.storage?.setItem(this.shimDisconnectKey, true)\<close>
\<close>

definition persist_shimDisconnect :: "env \<Rightarrow> unit task" where
  "persist_shimDisconnect e =
     and_then read_state (\<lambda>s.
     if (case this_options s of None \<Rightarrow> False | Some opts \<Rightarrow> shimDisconnect opts)
     then (case this_storage s of
             None \<Rightarrow> task_return ()
           | Some m \<Rightarrow>
               and_then (record_action (Storage_setItem (shimDisconnectKey e) True)) (\<lambda>_.
               update_state (\<lambda>s'. s'\<lparr>this_storage := Some (m(shimDisconnectKey e \<mapsto> True))\<rparr>)))
     else task_return ())"

text \<open>
  From \<^verbatim>\<open>const selectedAccount\<close> to \<^verbatim>\<open>return connectResponse\<close>: lines 170 to 204 of
  part_000 and, letter for letter the same, lines 146 to 180 of metaMaskSDK.ts.
\<close>

definition connect_from_selectedAccount ::
  "env \<Rightarrow> number option \<Rightarrow> string list option \<Rightarrow> connect_response task" where
  "connect_from_selectedAccount e chainId accounts =
     and_then (read_providerChainId e) (\<lambda>providerChainId.
     and_then (record_action (Call_parseInt providerChainId)) (\<lambda>_.
     and_then (case chainId of
                 None \<Rightarrow>
                   task_return \<lparr>chain_id = parseInt providerChainId, unsupported = False\<rparr>
               | Some requested \<Rightarrow>
                   if strict_neq (parseInt providerChainId) requested
                   then and_then (record_action (Call_switchChain requested)) (\<lambda>_.
                        and_then (await (switchChain e requested)) (\<lambda>newChain_id.
                        and_then (record_action (Call_isChainUnsupported newChain_id)) (\<lambda>_.
                        task_return \<lparr>chain_id = newChain_id,
                                     unsupported = isChainUnsupported e newChain_id\<rparr>)))
                   else task_return \<lparr>chain_id = parseInt providerChainId, unsupported = False\<rparr>)
       (\<lambda>chain'.
     and_then (persist_shimDisconnect e) (\<lambda>_.
     and_then read_state (\<lambda>s.
     task_return \<lparr>isConnected = True, account = selectedAccount accounts, chain = chain',
                  provider = this_provider s\<rparr>)))))"

text \<open>The \<^verbatim>\<open>catch\<close> block of \<^verbatim>\<open>connect\<close>, the same in both files.\<close>

definition connect_catch :: "env \<Rightarrow> thrown \<Rightarrow> connect_response task" where
  "connect_catch e error =
     (if isUserRejectedRequestError e error then task_throw (UserRejectedRequestError error)
      else if code error = Some (Num (- 32002)) then task_throw (ResourceUnavailableRpcError error)
      else task_throw error)"

text \<open>
  part_000: \<^verbatim>\<open>this.#sdk.connect().catch((_error) => {})\<close> is not awaited, and the
  handler of its rejection is empty.
\<close>

definition sdk_connect_trigger :: "env \<Rightarrow> unit task" where
  "sdk_connect_trigger e =
     and_then (record_action Sdk_connect) (\<lambda>_.
     (case sdk_connect e of
        Inl ignored_error \<Rightarrow> task_return ()
      | Inr accounts \<Rightarrow> task_return ()))"

definition connect_try_part_000 :: "env \<Rightarrow> number option \<Rightarrow> connect_response task" where
  "connect_try_part_000 e chainId =
     and_then (ensure_initialized e) (\<lambda>_.
     and_then (sdk_connect_trigger e) (\<lambda>_.
     and_then (waitForSDK e) (\<lambda>_.
     and_then (updateProviderListeners (sdk_getProvider e)) (\<lambda>_.
     and_then (provider_request ''eth_requestAccounts'' (eth_requestAccounts e)) (\<lambda>accounts.
     connect_from_selectedAccount e chainId accounts)))))"

definition connect_part_000 :: "env \<Rightarrow> number option \<Rightarrow> connect_response task" where
  "connect_part_000 e chainId = try_catch (connect_try_part_000 e chainId) (connect_catch e)"

text \<open>
  metaMaskSDK.ts: the account list is the awaited result of \<^verbatim>\<open>sdk.connect()\<close>; the
  resync follows, and then the wait for \<^verbatim>\<open>authorized\<close> when neither the extension
  is active nor the connection authorized.
\<close>

definition wait_if_not_authorized :: "env \<Rightarrow> unit task" where
  "wait_if_not_authorized e =
     and_then (record_action Sdk_isExtensionActive) (\<lambda>_.
     if isExtensionActive e then task_return ()
     else and_then (record_action Sdk_isAuthorized) (\<lambda>_.
          if connection e = Some True then task_return ()
          else and_then (waitForAuthorized e) (\<lambda>_. task_return ())))"

definition connect_try_metaMaskSDK_ts :: "env \<Rightarrow> number option \<Rightarrow> connect_response task" where
  "connect_try_metaMaskSDK_ts e chainId =
     and_then (ensure_initialized e) (\<lambda>_.
     and_then (record_action Sdk_connect) (\<lambda>_.
     and_then (await (sdk_connect e)) (\<lambda>accounts.
     and_then (updateProviderListeners (sdk_getProvider e)) (\<lambda>_.
     and_then (wait_if_not_authorized e) (\<lambda>_.
     connect_from_selectedAccount e chainId accounts)))))"

definition connect_metaMaskSDK_ts :: "env \<Rightarrow> number option \<Rightarrow> connect_response task" where
  "connect_metaMaskSDK_ts e chainId =
     try_catch (connect_try_metaMaskSDK_ts e chainId) (connect_catch e)"

text \<open>Either version, selected by the file it is in.\<close>

datatype version = Part_000 | MetaMaskSDK_ts

fun connect :: "version \<Rightarrow> env \<Rightarrow> number option \<Rightarrow> connect_response task" where
  "connect Part_000 = connect_part_000"
| "connect MetaMaskSDK_ts = connect_metaMaskSDK_ts"

fun connect_try :: "version \<Rightarrow> env \<Rightarrow> number option \<Rightarrow> connect_response task" where
  "connect_try Part_000 = connect_try_part_000"
| "connect_try MetaMaskSDK_ts = connect_try_metaMaskSDK_ts"

section \<open>The constructor\<close>

text \<open>
  What the constructor leaves: the SDK instance, \<^verbatim>\<open>#provider\<close>, \<^verbatim>\<open>#debug\<close> (part_000
  only) and the options it passed to \<^verbatim>\<open>super\<close>. It returns the calls it made with
  either the error it threw or the fields. \<open>provider_of\<close> is what \<^verbatim>\<open>getProvider()\<close>
  of an SDK instance returns at construction time.
\<close>

record constructed =
  constructed_sdk :: sdk_instance
  constructed_provider :: "provider_id option"
  constructed_debug :: bool
  super_options :: base_options

definition invalid_sdk_parameters :: thrown where
  "invalid_sdk_parameters = JsError ''MetaMaskConnector invalid sdk parameters'' None"

definition constructor_part_000 ::
  "(sdk_instance \<Rightarrow> provider_id option) \<Rightarrow> connector_options option
     \<Rightarrow> action list \<times> (thrown + constructed)" where
  "constructor_part_000 provider_of options_arg =
     (case options_arg of
        None \<Rightarrow> ([], Inl invalid_sdk_parameters)
      | Some opts \<Rightarrow>
          if sdk opts = None \<and> sdkOptions opts = None then ([], Inl invalid_sdk_parameters)
          else
            let (made, the_sdk) =
                  (case sdk opts of
                     None \<Rightarrow> ([New_MetaMaskSDK (sdkOptions opts)], Constructed (sdkOptions opts))
                   | Some given \<Rightarrow> ([], Supplied given));
                sdkProvider = provider_of the_sdk;
                options = \<lparr>name = ''MetaMask'', shimDisconnect = True,
                           getProvider_option = sdkProvider\<rparr>
            in (made @ [Sdk_getProvider, Call_super options],
                Inr \<lparr>constructed_sdk = the_sdk, constructed_provider = sdkProvider,
                     constructed_debug = (case debug opts of None \<Rightarrow> False | Some d \<Rightarrow> d),
                     super_options = options\<rparr>))"

definition constructor_metaMaskSDK_ts ::
  "(sdk_instance \<Rightarrow> provider_id option) \<Rightarrow> connector_options option
     \<Rightarrow> action list \<times> (thrown + constructed)" where
  "constructor_metaMaskSDK_ts provider_of options_arg =
     (case options_arg of
        None \<Rightarrow> ([], Inl invalid_sdk_parameters)
      | Some opts \<Rightarrow>
          if sdk opts = None \<and> sdkOptions opts = None then ([], Inl invalid_sdk_parameters)
          else
            let (made, the_sdk) =
                  (case sdk opts of
                     Some given \<Rightarrow> ([], Supplied given)
                   | None \<Rightarrow>
                       let filled =
                             (case sdkOptions opts of
                                None \<Rightarrow> \<lparr>dappMetadata_name = Some ''wagmi'',
                                          underscore_source = None\<rparr>
                              | Some given_options \<Rightarrow> given_options);
                           forced = filled\<lparr>underscore_source := Some ''wagmi''\<rparr>
                       in ([New_MetaMaskSDK (Some forced)], Constructed (Some forced)));
                sdkProvider = provider_of the_sdk;
                options = \<lparr>name = ''MetaMask'', shimDisconnect = True,
                           getProvider_option = sdkProvider\<rparr>
            in (made @ [Sdk_getProvider, Call_super options],
                Inr \<lparr>constructed_sdk = the_sdk, constructed_provider = sdkProvider,
                     constructed_debug = False, super_options = options\<rparr>))"

fun constructor ::
  "version \<Rightarrow> (sdk_instance \<Rightarrow> provider_id option) \<Rightarrow> connector_options option
     \<Rightarrow> action list \<times> (thrown + constructed)" where
  "constructor Part_000 = constructor_part_000"
| "constructor MetaMaskSDK_ts = constructor_metaMaskSDK_ts"

text \<open>
  Modelled from the spec: the base class's constructor (\<^verbatim>\<open>./injected\<close> is not among the
  sources) keeps the options it is given as \<^verbatim>\<open>this.options\<close>, from which \<^verbatim>\<open>connect\<close>
  reads \<^verbatim>\<open>options.shimDisconnect\<close>; \<^verbatim>\<open>storage\<close> is the base class's own and is given
  to the connector from outside.
\<close>

definition state_after_constructor ::
  "constructed \<Rightarrow> (string \<rightharpoonup> bool) option \<Rightarrow> listener list \<Rightarrow> state" where
  "state_after_constructor k storage0 subscriptions =
     \<lparr>this_provider = constructed_provider k, this_debug = constructed_debug k,
      this_options = Some (super_options k), this_storage = storage0,
      listeners = subscriptions\<rparr>"

section \<open>Properties of the listener tables\<close>

text \<open>The three subscriptions the connector tracks: event name and handler.\<close>

definition tracked :: "(string \<times> handler) list" where
  "tracked = [(''accountsChanged'', onAccountsChanged), (''chainChanged'', onChainChanged),
              (''disconnect'', onDisconnect)]"

text \<open>
  The providers a subscription \<open>t\<close> is on, once for every time it is subscribed there.
\<close>

definition subscribers :: "listener list \<Rightarrow> string \<times> handler \<Rightarrow> provider_id list" where
  "subscribers ls t = map fst (filter (\<lambda>l. snd l = t) ls)"

text \<open>
  At most one set of the tracked subscriptions, on the provider in \<^verbatim>\<open>#provider\<close>: every
  tracked subscription is on no provider at all, or once on that provider and on no other.
\<close>

definition listeners_synced :: "state \<Rightarrow> bool" where
  "listeners_synced s =
     list_all (\<lambda>t. case this_provider s of
                     None \<Rightarrow> subscribers (listeners s) t = []
                   | Some p \<Rightarrow> subscribers (listeners s) t = [] \<or> subscribers (listeners s) t = [p])
       tracked"

definition none_subscribed :: "state \<Rightarrow> bool" where
  "none_subscribed s = list_all (\<lambda>t. subscribers (listeners s) t = []) tracked"

text \<open>All the configurations a sequence of steps passes through, the first and last included.\<close>

fun trajectory :: "(config \<Rightarrow> config) list \<Rightarrow> config \<Rightarrow> config list" where
  "trajectory [] c = [c]"
| "trajectory (step # steps) c = c # trajectory steps (step c)"

text \<open>
  The public operations of a connector, of either version, each with the environment of
  that call; a sequence of them runs one after the other.
\<close>

datatype operation =
    Op_getProvider env
  | Op_disconnect env
  | Op_connect version env "number option"

fun run_operation :: "operation \<Rightarrow> state \<Rightarrow> state" where
  "run_operation (Op_getProvider e) s = fst (snd (getProvider e (s, [])))"
| "run_operation (Op_disconnect e) s = fst (snd (disconnect e (s, [])))"
| "run_operation (Op_connect v e chainId) s = fst (snd (connect v e chainId (s, [])))"

definition run_operations :: "operation list \<Rightarrow> state \<Rightarrow> state" where
  "run_operations ops s = foldl (\<lambda>s' op. run_operation op s') s ops"

text \<open>
  The state a resync aims at: \<^verbatim>\<open>#provider\<close> is what the SDK returned, and each tracked
  subscription is exactly once on that provider and on no other (on none when the SDK
  returned no provider).
\<close>

definition resynced_to :: "provider_id option \<Rightarrow> state \<Rightarrow> bool" where
  "resynced_to from_sdk s =
     (this_provider s = from_sdk \<and>
      list_all (\<lambda>t. subscribers (listeners s) t = (case from_sdk of None \<Rightarrow> [] | Some p \<Rightarrow> [p]))
        tracked)"

text \<open>Tasks that keep a property of the state.\<close>

definition keeps :: "(state \<Rightarrow> bool) \<Rightarrow> 'a task \<Rightarrow> bool" where
  "keeps I m = (\<forall>c. I (fst c) \<longrightarrow> I (fst (snd (m c))))"

text \<open>Tasks that only append calls of a given kind to the record.\<close>

definition emits :: "(action \<Rightarrow> bool) \<Rightarrow> 'a task \<Rightarrow> bool" where
  "emits A m = (\<forall>c. \<exists>l. snd (snd (m c)) = snd c @ l \<and> list_all A l)"

datatype phase =
    Construction | Initialization | Trigger | Authorization | Resync | Accounts | Chain
  | Persistence | Teardown

fun phase_of :: "action \<Rightarrow> phase" where
  "phase_of (New_MetaMaskSDK opts) = Construction"
| "phase_of (Call_super opts) = Construction"
| "phase_of Sdk_isInitialized = Initialization"
| "phase_of Sdk_init = Initialization"
| "phase_of Sdk_connect = Trigger"
| "phase_of Sdk_terminate = Teardown"
| "phase_of Sdk_getProvider = Resync"
| "phase_of Sdk_isExtensionActive = Authorization"
| "phase_of Sdk_isAuthorized = Authorization"
| "phase_of Sdk_once_PROVIDER_UPDATE = Authorization"
| "phase_of Connector_once_AUTHORIZED = Authorization"
| "phase_of (Console_log msg) = Authorization"
| "phase_of Call_waitForSDK = Authorization"
| "phase_of Call_waitForAuthorized = Authorization"
| "phase_of Resolved_wait = Authorization"
| "phase_of Call_updateProviderListeners = Resync"
| "phase_of (RemoveListener p event h) = Resync"
| "phase_of (On p event h) = Resync"
| "phase_of (Request p method) = (if method = ''eth_requestAccounts'' then Accounts else Chain)"
| "phase_of (Read_chainId p) = Chain"
| "phase_of (Call_parseInt v) = Chain"
| "phase_of (Call_switchChain n) = Chain"
| "phase_of (Call_isChainUnsupported n) = Chain"
| "phase_of (Storage_setItem k v) = Persistence"
| "phase_of (Storage_removeItem k) = Teardown"
| "phase_of Call_super_disconnect = Teardown"

definition obtained_chainId :: "env \<Rightarrow> provider_id option \<Rightarrow> string option" where
  "obtained_chainId e held =
     (case held of
        None \<Rightarrow> None
      | Some p \<Rightarrow>
          (case provider_chainId e p of
             Some (c # cs) \<Rightarrow> Some (c # cs)
           | _ \<Rightarrow> (case eth_chainId e p of Inl err \<Rightarrow> None | Inr answer \<Rightarrow> answer)))"

fun obtained_accounts :: "version \<Rightarrow> env \<Rightarrow> provider_id option \<Rightarrow> string list option" where
  "obtained_accounts Part_000 e held =
     (case held of
        None \<Rightarrow> None
      | Some p \<Rightarrow> (case eth_requestAccounts e p of Inl err \<Rightarrow> None | Inr answer \<Rightarrow> answer))"
| "obtained_accounts MetaMaskSDK_ts e held =
     (case sdk_connect e of Inl err \<Rightarrow> None | Inr answer \<Rightarrow> answer)"

definition expected_chain :: "env \<Rightarrow> number option \<Rightarrow> string option \<Rightarrow> chain_descriptor option" where
  "expected_chain e chainId hex =
     (case chainId of
        None \<Rightarrow> Some \<lparr>chain_id = parseInt hex, unsupported = False\<rparr>
      | Some requested \<Rightarrow>
          if strict_neq (parseInt hex) requested
          then (case switchChain e requested of
                  Inl err \<Rightarrow> None
                | Inr new \<Rightarrow> Some \<lparr>chain_id = new, unsupported = isChainUnsupported e new\<rparr>)
          else Some \<lparr>chain_id = parseInt hex, unsupported = False\<rparr>)"

definition persisted :: "env \<Rightarrow> state \<Rightarrow> state" where
  "persisted e s =
     (if (case this_options s of None \<Rightarrow> False | Some opts \<Rightarrow> shimDisconnect opts)
      then (case this_storage s of
              None \<Rightarrow> s
            | Some m \<Rightarrow> s\<lparr>this_storage := Some (m(shimDisconnectKey e \<mapsto> True))\<rparr>)
      else s)"

definition classified :: "env \<Rightarrow> thrown \<Rightarrow> thrown" where
  "classified e err =
     (if isUserRejectedRequestError e err then UserRejectedRequestError err
      else if code err = Some (Num (- 32002)) then ResourceUnavailableRpcError err
      else err)"

definition resync_state :: "provider_id option \<Rightarrow> state \<Rightarrow> state" where
  "resync_state from_sdk s = fst (snd (updateProviderListeners from_sdk (s, [])))"

section \<open>Concrete environments and states\<close>

text \<open>
  The SDK is initialized and authorized, its provider is provider 1 with
  \<^verbatim>\<open>chainId = "0x1"\<close> and two accounts; the base class treats chain 137 as unsupported
  and errors with code 4001 as rejections by the user.
\<close>

definition example_env :: env where
  "example_env =
     \<lparr>isInitialized = True, init = None, sdk_connect = Inr (Some [''0xabc'']),
      connection = Some True, isExtensionActive = False, signals = [],
      sdk_getProvider = Some 1,
      eth_requestAccounts = (\<lambda>p. Inr (Some [''0xabc'', ''0xdef''])),
      provider_chainId = (\<lambda>p. Some ''0x1''),
      eth_chainId = (\<lambda>p. Inr (Some ''0x1'')),
      switchChain = (\<lambda>requested. Inr requested),
      isChainUnsupported = (\<lambda>n. n = Num 137),
      isUserRejectedRequestError = (\<lambda>err. code err = Some (Num 4001)),
      shimDisconnectKey = ''metaMaskSDK.shimDisconnect''\<rparr>"

text \<open>
  A connector as the constructor leaves it, holding provider 0, with a storage; provider
  0 has a subscriber that is not the connector's.
\<close>

definition example_state :: state where
  "example_state =
     \<lparr>this_provider = Some 0, this_debug = False,
      this_options = Some \<lparr>name = ''MetaMask'', shimDisconnect = True,
                            getProvider_option = Some 0\<rparr>,
      this_storage = Some Map.empty,
      listeners = [(0, ''accountsChanged'', Foreign 1)]\<rparr>"

definition example_operations :: "operation list" where
  "example_operations =
     [Op_connect Part_000 example_env None,
      Op_disconnect example_env,
      Op_connect MetaMaskSDK_ts (example_env\<lparr>sdk_getProvider := Some 2\<rparr>) (Some (Num 137)),
      Op_getProvider example_env]"

text \<open>
  Scenario 2 of the spec: the SDK authorizes through the signal only, chain 137 is
  requested, the provider is on chain 1, and the base class's \<^verbatim>\<open>switchChain\<close> resolves
  to chain 137, which it reports as unsupported.
\<close>

definition scenario_2_env :: env where
  "scenario_2_env = example_env\<lparr>connection := Some False, signals := [PROVIDER_UPDATE]\<rparr>"

text \<open>Scenario 4 of the spec: the account list is empty.\<close>

definition scenario_4_env :: env where
  "scenario_4_env =
     example_env\<lparr>eth_requestAccounts := (\<lambda>p. Inr (Some [])), sdk_connect := Inr (Some [])\<rparr>"

text \<open>Constructor arguments with SDK options and no SDK instance.\<close>

definition example_options :: connector_options where
  "example_options =
     \<lparr>debug = Some True, sdk = None,
      sdkOptions = Some \<lparr>dappMetadata_name = Some ''dapp'', underscore_source = None\<rparr>\<rparr>"

text \<open>
  At construction time a supplied SDK instance has provider 0, and one the constructor
  creates has none yet.
\<close>

definition example_provider_of :: "sdk_instance \<Rightarrow> provider_id option" where
  "example_provider_of instance = (case instance of Supplied i \<Rightarrow> Some 0 | Constructed opts \<Rightarrow> None)"

section \<open>The listener tables stay in step with the provider\<close>

lemma trajectory_not_Nil [simp]: "trajectory steps c \<noteq> []"
  by (cases steps) simp_all

lemma run_steps_last: "run_steps steps c = last (trajectory steps c)"
  by (induction steps arbitrary: c) (simp_all add: run_steps_def)

lemma map_fst_remove1:
  "\<forall>l \<in> set xs. snd l = t \<Longrightarrow> map fst (remove1 (p, t) xs) = remove1 p (map fst xs)"
  by (induction xs) (auto simp: prod_eq_iff)

lemma subscribers_on:
  "subscribers (provider_on p event h ls) t =
     subscribers ls t @ (if t = (event, h) then [p] else [])"
  by (simp add: subscribers_def provider_on_def)

lemma filter_remove_last:
  "filter P (remove_last x xs) = remove_last x (filter P xs)"
proof -
  have "filter P (rev (remove1 x (rev xs))) = rev (filter P (remove1 x (rev xs)))"
    by (simp only: rev_filter)
  also have "\<dots> = rev (remove1 x (filter P (rev xs)))"
    by (simp only: filter_remove1)
  also have "\<dots> = rev (remove1 x (rev (filter P xs)))"
    by (simp only: rev_filter)
  finally show ?thesis
    by (simp only: remove_last_def)
qed

lemma map_fst_remove_last:
  assumes "\<forall>l \<in> set xs. snd l = t"
  shows "map fst (remove_last (p, t) xs) = remove_last p (map fst xs)"
proof -
  have "\<forall>l \<in> set (rev xs). snd l = t"
    using assms by simp
  then have "map fst (remove1 (p, t) (rev xs)) = remove1 p (map fst (rev xs))"
    by (rule map_fst_remove1)
  then have "rev (map fst (remove1 (p, t) (rev xs))) = rev (remove1 p (rev (map fst xs)))"
    by (simp only: rev_map)
  then show ?thesis
    by (simp only: remove_last_def rev_map)
qed

lemma remove_last_absent: "x \<notin> set xs \<Longrightarrow> remove_last x xs = xs"
  by (simp add: remove_last_def remove1_idem)

lemma subscribers_removeListener:
  "subscribers (provider_removeListener p event h ls) t =
     (if t = (event, h) then remove_last p (subscribers ls t) else subscribers ls t)"
proof (cases "t = (event, h)")
  case True
  have "map fst (remove_last (p, t) (filter (\<lambda>l. snd l = t) ls))
          = remove_last p (map fst (filter (\<lambda>l. snd l = t) ls))"
    by (rule map_fst_remove_last) simp
  then show ?thesis
    using True
    by (simp add: subscribers_def provider_removeListener_def filter_remove_last)
next
  case False
  then have "(p, event, h) \<notin> set (filter (\<lambda>l. snd l = t) ls)"
    by auto
  then have "remove_last (p, event, h) (filter (\<lambda>l. snd l = t) ls)
               = filter (\<lambda>l. snd l = t) ls"
    by (rule remove_last_absent)
  then show ?thesis
    using False
    by (simp add: subscribers_def provider_removeListener_def filter_remove_last)
qed

lemma remove_last_simps [simp]: "remove_last p [] = []" "remove_last p [p] = []"
  by (simp_all add: remove_last_def)

lemma subscribers_steps [simp]:
  "this_provider (fst c) = Some p \<Longrightarrow>
     subscribers (listeners (fst (removeListener_step event h c))) t =
       (if t = (event, h) then remove_last p (subscribers (listeners (fst c)) t)
        else subscribers (listeners (fst c)) t)"
  "this_provider (fst c) = Some p \<Longrightarrow>
     subscribers (listeners (fst (on_step event h c))) t =
       subscribers (listeners (fst c)) t @ (if t = (event, h) then [p] else [])"
  "this_provider (fst c) = None \<Longrightarrow> removeListener_step event h c = c"
  "this_provider (fst c) = None \<Longrightarrow> on_step event h c = c"
  "listeners (fst (refresh_step from_sdk c)) = listeners (fst c)"
  by (simp_all add: removeListener_step_def on_step_def refresh_step_def
      subscribers_removeListener subscribers_on)

lemma provider_steps [simp]:
  "this_provider (fst (removeListener_step event h c)) = this_provider (fst c)"
  "this_provider (fst (on_step event h c)) = this_provider (fst c)"
  "this_provider (fst (refresh_step from_sdk c)) = from_sdk"
  by (simp_all add: removeListener_step_def on_step_def refresh_step_def split: option.splits)

lemma resync_trajectory_synced:
  assumes "listeners_synced s"
  shows "list_all (\<lambda>c. listeners_synced (fst c))
           (trajectory (updateProviderListeners_steps from_sdk s) (s, l))"
proof (cases "this_provider s")
  case None
  with assms show ?thesis
    by (cases from_sdk)
       (simp_all add: updateProviderListeners_steps_def listeners_synced_def tracked_def)
next
  case (Some p)
  with assms show ?thesis
    by (cases from_sdk)
       (auto simp add: updateProviderListeners_steps_def listeners_synced_def tracked_def)
qed

lemma resynced_to_synced: "resynced_to from_sdk s \<Longrightarrow> listeners_synced s"
  by (cases from_sdk) (simp_all add: resynced_to_def listeners_synced_def tracked_def)

lemma run_steps_simps:
  "run_steps [] c = c"
  "run_steps (step # steps) c = run_steps steps (step c)"
  by (simp_all add: run_steps_def)

lemma resync_steps_resynced:
  assumes "listeners_synced s"
  shows "resynced_to from_sdk (fst (run_steps (updateProviderListeners_steps from_sdk s) (s, l)))"
proof (cases "this_provider s")
  case None
  with assms show ?thesis
    by (cases from_sdk)
       (simp_all add: updateProviderListeners_steps_def listeners_synced_def tracked_def
          resynced_to_def run_steps_simps)
next
  case (Some p)
  with assms show ?thesis
    by (cases from_sdk)
       (auto simp add: updateProviderListeners_steps_def listeners_synced_def tracked_def
          resynced_to_def run_steps_simps)
qed

lemma updateProviderListeners_resynced:
  "listeners_synced (fst c) \<Longrightarrow>
     resynced_to from_sdk (fst (snd (updateProviderListeners from_sdk c)))"
  using resync_steps_resynced [of "fst c" from_sdk "snd c @ [Call_updateProviderListeners]"]
  by (simp add: updateProviderListeners_def)

lemma updateProviderListeners_twice:
  assumes "listeners_synced (fst c)"
  shows "resynced_to second
           (fst (snd (and_then (updateProviderListeners first)
                        (\<lambda>_. updateProviderListeners second) c)))"
proof -
  obtain c' where c': "updateProviderListeners first c = (Returns (), c')"
    by (simp add: updateProviderListeners_def)
  have "resynced_to first (fst c')"
    using updateProviderListeners_resynced [OF assms, of first] c' by simp
  then have "listeners_synced (fst c')"
    by (rule resynced_to_synced)
  then have "resynced_to second (fst (snd (updateProviderListeners second c')))"
    by (rule updateProviderListeners_resynced)
  then show ?thesis
    by (simp add: and_then_def c')
qed

lemma keeps_basic:
  "keeps I (task_return x)"
  "keeps I (task_throw err)"
  "keeps I task_hang"
  "keeps I (record_action a)"
  "keeps I read_state"
  "keeps I (await settled)"
  by (simp_all add: keeps_def task_return_def task_throw_def task_hang_def record_action_def
      read_state_def await_def split: sum.splits)

lemma keepsD: "keeps I m \<Longrightarrow> I (fst c) \<Longrightarrow> I (fst (snd (m c)))"
  unfolding keeps_def by blast

lemma keepsI: "(\<And>c. I (fst c) \<Longrightarrow> I (fst (snd (m c)))) \<Longrightarrow> keeps I m"
  unfolding keeps_def by blast

lemma keeps_and_then:
  assumes "keeps I m" and "\<And>x. keeps I (f x)"
  shows "keeps I (and_then m f)"
proof (rule keepsI)
  fix c :: config
  assume "I (fst c)"
  obtain r c' where run: "m c = (r, c')"
    by (cases "m c")
  have kept: "I (fst c')"
    using keepsD [OF assms(1) \<open>I (fst c)\<close>] run by simp
  show "I (fst (snd (and_then m f c)))"
  proof (cases r)
    case (Returns x)
    then show ?thesis
      using keepsD [OF assms(2) kept, of x] by (simp add: and_then_def run)
  qed (simp_all add: and_then_def run kept)
qed

lemma keeps_try_catch:
  assumes "keeps I m" and "\<And>x. keeps I (handler x)"
  shows "keeps I (try_catch m handler)"
proof (rule keepsI)
  fix c :: config
  assume "I (fst c)"
  obtain r c' where run: "m c = (r, c')"
    by (cases "m c")
  have kept: "I (fst c')"
    using keepsD [OF assms(1) \<open>I (fst c)\<close>] run by simp
  show "I (fst (snd (try_catch m handler c)))"
  proof (cases r)
    case (Throws x)
    then show ?thesis
      using keepsD [OF assms(2) kept, of x] by (simp add: try_catch_def run)
  qed (simp_all add: try_catch_def run kept)
qed

lemma keeps_if:
  "keeps I m \<Longrightarrow> keeps I m' \<Longrightarrow> keeps I (if b then m else m')"
  by simp

lemma keeps_case_option:
  "keeps I m \<Longrightarrow> (\<And>x. keeps I (f x)) \<Longrightarrow> keeps I (case v of None \<Rightarrow> m | Some x \<Rightarrow> f x)"
  by (cases v) simp_all

lemma keeps_update_state:
  "(\<And>s. I s \<Longrightarrow> I (f s)) \<Longrightarrow> keeps I (update_state f)"
  by (simp add: keeps_def update_state_def)

lemmas keeps_intros =
  keeps_basic keeps_and_then keeps_try_catch keeps_if keeps_case_option keeps_update_state

lemma synced_storage [simp]:
  "listeners_synced (s\<lparr>this_storage := m\<rparr>) = listeners_synced s"
  by (simp add: listeners_synced_def cong: option.case_cong)

lemma keeps_updateProviderListeners:
  "keeps listeners_synced (updateProviderListeners from_sdk)"
  unfolding keeps_def
proof (intro allI impI)
  fix c :: config
  assume "listeners_synced (fst c)"
  then have "resynced_to from_sdk (fst (snd (updateProviderListeners from_sdk c)))"
    by (rule updateProviderListeners_resynced)
  then show "listeners_synced (fst (snd (updateProviderListeners from_sdk c)))"
    by (rule resynced_to_synced)
qed

lemma keeps_waits:
  "keeps I (waitForSDK e)" "keeps I (waitForAuthorized e)" "keeps I (ensure_initialized e)"
  "keeps I (sdk_connect_trigger e)" "keeps I (wait_if_not_authorized e)"
  "keeps I (provider_request method answer)" "keeps I (read_providerChainId e)"
  "keeps I (connect_catch e err)"
  unfolding waitForSDK_def waitForAuthorized_def ensure_initialized_def
    sdk_connect_trigger_def wait_if_not_authorized_def provider_request_def
    read_providerChainId_def connect_catch_def
  by (auto intro!: keeps_intros split: option.splits sum.splits)

lemma keeps_persist: "keeps listeners_synced (persist_shimDisconnect e)"
  unfolding persist_shimDisconnect_def
  by (auto intro!: keeps_intros split: option.splits)

lemma keeps_from_selectedAccount:
  "keeps listeners_synced (connect_from_selectedAccount e chainId accounts)"
  unfolding connect_from_selectedAccount_def
  by (auto intro!: keeps_intros keeps_waits keeps_persist split: option.splits)

lemma keeps_connect: "keeps listeners_synced (connect v e chainId)"
  by (cases v)
     (auto simp: connect_part_000_def connect_try_part_000_def connect_metaMaskSDK_ts_def
        connect_try_metaMaskSDK_ts_def
        intro!: keeps_intros keeps_waits keeps_from_selectedAccount keeps_updateProviderListeners)

lemma synced_set_provider:
  "listeners_synced s \<Longrightarrow> this_provider s = None \<Longrightarrow>
     listeners_synced (s\<lparr>this_provider := from_sdk\<rparr>)"
  by (cases from_sdk) (simp_all add: listeners_synced_def tracked_def)

lemma keeps_getProvider: "keeps listeners_synced (getProvider e)"
  unfolding keeps_def getProvider_def ensure_initialized_def
  by (auto simp: and_then_def record_action_def update_state_def task_return_def
      task_throw_def read_state_def intro: synced_set_provider split: option.splits)

lemma remove_three_synced:
  assumes "listeners_synced (fst c)"
  shows "listeners_synced (fst (run_steps
           [removeListener_step ''accountsChanged'' onAccountsChanged,
            removeListener_step ''chainChanged'' onChainChanged,
            removeListener_step ''disconnect'' onDisconnect] c))"
  using assms
  by (cases "this_provider (fst c)")
     (auto simp: listeners_synced_def tracked_def run_steps_simps)

lemma keeps_remove_three:
  "keeps listeners_synced (\<lambda>c. (Returns (),
      run_steps [removeListener_step ''accountsChanged'' onAccountsChanged,
                 removeListener_step ''chainChanged'' onChainChanged,
                 removeListener_step ''disconnect'' onDisconnect] c))"
  unfolding keeps_def
proof (intro allI impI)
  fix c :: config
  assume "listeners_synced (fst c)"
  then show "listeners_synced (fst (snd (Returns (),
      run_steps [removeListener_step ''accountsChanged'' onAccountsChanged,
                 removeListener_step ''chainChanged'' onChainChanged,
                 removeListener_step ''disconnect'' onDisconnect] c)))"
    using remove_three_synced [of c] by simp
qed

lemma keeps_disconnect: "keeps listeners_synced (disconnect e)"
  unfolding disconnect_def super_disconnect_def
  by (auto intro!: keeps_intros keeps_remove_three split: option.splits)

lemma run_operation_synced:
  "listeners_synced s \<Longrightarrow> listeners_synced (run_operation op s)"
  using keeps_connect keeps_getProvider keeps_disconnect
  by (cases op) (simp_all add: keeps_def)

lemma run_operations_synced:
  "listeners_synced s \<Longrightarrow> listeners_synced (run_operations ops s)"
  unfolding run_operations_def
  by (induction ops arbitrary: s) (simp_all add: run_operation_synced)

lemma none_subscribed_synced: "none_subscribed s \<Longrightarrow> listeners_synced s"
  by (cases "this_provider s") (simp_all add: none_subscribed_def listeners_synced_def tracked_def)

lemmas task_defs =
  task_return_def task_throw_def task_hang_def and_then_def try_catch_def await_def
  record_action_def read_state_def update_state_def

lemma and_then_Returns:
  "and_then m f c = (Returns y, c'') \<longleftrightarrow>
     (\<exists>x c'. m c = (Returns x, c') \<and> f x c' = (Returns y, c''))"
  by (cases "m c"; cases "fst (m c)") (auto simp: and_then_def)

lemma and_then_Throws:
  "and_then m f c = (Throws err, c'') \<longleftrightarrow>
     m c = (Throws err, c'') \<or> (\<exists>x c'. m c = (Returns x, c') \<and> f x c' = (Throws err, c''))"
  by (cases "m c"; cases "fst (m c)") (auto simp: and_then_def)

lemma and_then_Hangs:
  "and_then m f c = (Hangs, c'') \<longleftrightarrow>
     m c = (Hangs, c'') \<or> (\<exists>x c'. m c = (Returns x, c') \<and> f x c' = (Hangs, c''))"
  by (cases "m c"; cases "fst (m c)") (auto simp: and_then_def)

lemma try_catch_Returns:
  "try_catch m handler c = (Returns y, c'') \<longleftrightarrow>
     m c = (Returns y, c'')
     \<or> (\<exists>err c'. m c = (Throws err, c') \<and> handler err c' = (Returns y, c''))"
  by (cases "m c"; cases "fst (m c)") (auto simp: try_catch_def)

lemma basic_runs [simp]:
  "task_return x c = (r, c') \<longleftrightarrow> r = Returns x \<and> c' = c"
  "task_throw err c = (r, c') \<longleftrightarrow> r = Throws err \<and> c' = c"
  "task_hang c = (r, c') \<longleftrightarrow> r = Hangs \<and> c' = c"
  "record_action a c = (r', c') \<longleftrightarrow> r' = Returns () \<and> c' = (fst c, snd c @ [a])"
  "read_state c = (rs, c') \<longleftrightarrow> rs = Returns (fst c) \<and> c' = c"
  "update_state g c = (r', c') \<longleftrightarrow> r' = Returns () \<and> c' = (g (fst c), snd c)"
  by (auto simp: task_defs)

lemma await_runs [simp]:
  "await settled c = (Returns v, c') \<longleftrightarrow> settled = Inr v \<and> c' = c"
  "await settled c = (Throws err, c') \<longleftrightarrow> settled = Inl err \<and> c' = c"
  "await settled c \<noteq> (Hangs, c')"
  by (cases settled; auto simp: task_defs)+

lemma emitsI: "(\<And>c. \<exists>l. snd (snd (m c)) = snd c @ l \<and> list_all A l) \<Longrightarrow> emits A m"
  unfolding emits_def by blast

lemma emitsD: "emits A m \<Longrightarrow> \<exists>l. snd (snd (m c)) = snd c @ l \<and> list_all A l"
  unfolding emits_def by blast

lemma emits_basic:
  "emits A (task_return x)"
  "emits A (task_throw err)"
  "emits A task_hang"
  "emits A read_state"
  "emits A (update_state g)"
  "emits A (await settled)"
  by (auto simp: emits_def task_defs split: sum.splits)

lemma emits_record: "A a \<Longrightarrow> emits A (record_action a)"
  by (simp add: emits_def task_defs)

lemma emits_and_then:
  assumes "emits A m" and "\<And>x. emits A (f x)"
  shows "emits A (and_then m f)"
proof (rule emitsI)
  fix c :: config
  obtain r c' where run: "m c = (r, c')"
    by (cases "m c")
  obtain l where l: "snd c' = snd c @ l" "list_all A l"
    using emitsD [OF assms(1), of c] run by auto
  show "\<exists>l. snd (snd (and_then m f c)) = snd c @ l \<and> list_all A l"
  proof (cases r)
    case (Returns x)
    obtain l' where l': "snd (snd (f x c')) = snd c' @ l'" "list_all A l'"
      using emitsD [OF assms(2), of x c'] by auto
    show ?thesis
      using l l' Returns by (intro exI [of _ "l @ l'"]) (simp add: and_then_def run)
  qed (use l in \<open>auto simp: and_then_def run\<close>)
qed

lemma emits_try_catch:
  assumes "emits A m" and "\<And>x. emits A (handler x)"
  shows "emits A (try_catch m handler)"
proof (rule emitsI)
  fix c :: config
  obtain r c' where run: "m c = (r, c')"
    by (cases "m c")
  obtain l where l: "snd c' = snd c @ l" "list_all A l"
    using emitsD [OF assms(1), of c] run by auto
  show "\<exists>l. snd (snd (try_catch m handler c)) = snd c @ l \<and> list_all A l"
  proof (cases r)
    case (Throws x)
    obtain l' where l': "snd (snd (handler x c')) = snd c' @ l'" "list_all A l'"
      using emitsD [OF assms(2), of x c'] by auto
    show ?thesis
      using l l' Throws by (intro exI [of _ "l @ l'"]) (simp add: try_catch_def run)
  qed (use l in \<open>auto simp: try_catch_def run\<close>)
qed

lemma emits_if: "emits A m \<Longrightarrow> emits A m' \<Longrightarrow> emits A (if b then m else m')"
  by simp

lemma emits_case_option:
  "emits A m \<Longrightarrow> (\<And>x. emits A (f x)) \<Longrightarrow> emits A (case v of None \<Rightarrow> m | Some x \<Rightarrow> f x)"
  by (cases v) simp_all

lemma emits_mono: "emits A m \<Longrightarrow> (\<And>a. A a \<Longrightarrow> B a) \<Longrightarrow> emits B m"
  unfolding emits_def list_all_iff by blast

lemmas emits_intros =
  emits_basic emits_and_then emits_try_catch emits_if emits_case_option

lemma emits_ensure_initialized:
  "emits (\<lambda>a. phase_of a = Initialization) (ensure_initialized e)"
  unfolding ensure_initialized_def
  by (auto intro!: emits_intros emits_record split: option.splits)

lemma emits_sdk_connect_trigger:
  "emits (\<lambda>a. phase_of a = Trigger) (sdk_connect_trigger e)"
  unfolding sdk_connect_trigger_def
  by (auto intro!: emits_intros emits_record split: sum.splits)

lemma emits_waitForSDK: "emits (\<lambda>a. phase_of a = Authorization) (waitForSDK e)"
  unfolding waitForSDK_def
  by (auto intro!: emits_intros emits_record split: option.splits)

lemma emits_waitForAuthorized: "emits (\<lambda>a. phase_of a = Authorization) (waitForAuthorized e)"
  unfolding waitForAuthorized_def
  by (auto intro!: emits_intros emits_record split: option.splits)

lemma emits_wait_if_not_authorized:
  "emits (\<lambda>a. phase_of a = Authorization) (wait_if_not_authorized e)"
  unfolding wait_if_not_authorized_def
  by (auto intro!: emits_intros emits_record emits_waitForAuthorized)

lemma emits_request_accounts:
  "emits (\<lambda>a. phase_of a = Accounts)
     (provider_request ''eth_requestAccounts'' answer)"
  unfolding provider_request_def
  by (auto intro!: emits_intros emits_record split: option.splits)

lemma emits_request_chainId:
  "emits (\<lambda>a. phase_of a = Chain \<and> (\<forall>v. a \<noteq> Call_parseInt v))
     (provider_request ''eth_chainId'' answer)"
  unfolding provider_request_def
  by (auto intro!: emits_intros emits_record split: option.splits)

lemma emits_read_providerChainId:
  "emits (\<lambda>a. phase_of a = Chain \<and> (\<forall>v. a \<noteq> Call_parseInt v)) (read_providerChainId e)"
  unfolding read_providerChainId_def
  by (auto intro!: emits_intros emits_record emits_request_chainId split: option.splits)

lemma emits_persist:
  "emits (\<lambda>a. phase_of a = Persistence) (persist_shimDisconnect e)"
  unfolding persist_shimDisconnect_def
  by (auto intro!: emits_intros emits_record split: option.splits)

lemma emits_connect_catch: "emits A (connect_catch e err)"
  unfolding connect_catch_def by (auto intro!: emits_intros)

lemma updateProviderListeners_run:
  "\<exists>s' l. updateProviderListeners from_sdk c
            = (Returns (), (s', snd c @ Call_updateProviderListeners # l))
          \<and> this_provider s' = from_sdk
          \<and> this_storage s' = this_storage (fst c) \<and> this_options s' = this_options (fst c)
          \<and> this_debug s' = this_debug (fst c)
          \<and> list_all (\<lambda>a. phase_of a = Resync \<and> a \<noteq> Call_updateProviderListeners) l"
  unfolding updateProviderListeners_def updateProviderListeners_steps_def
    removeListener_step_def on_step_def refresh_step_def
  by (cases from_sdk; cases "this_provider (fst c)") (simp_all add: run_steps_simps)

lemma emits_run:
  "emits A m \<Longrightarrow> m c = (r, c') \<Longrightarrow> \<exists>l. snd c' = snd c @ l \<and> list_all A l"
  using emitsD [of A m c] by simp

lemma keeps_run: "keeps I m \<Longrightarrow> m c = (r, c') \<Longrightarrow> I (fst c) \<Longrightarrow> I (fst c')"
  using keepsD [of I m c] by simp

lemma unchanged_run:
  "(\<And>I. keeps I m) \<Longrightarrow> m c = (r, c') \<Longrightarrow> fst c' = fst c"
  using keeps_run [of "\<lambda>s. s = fst c" m c r c'] by simp

lemma read_providerChainId_Returns:
  assumes "read_providerChainId e c = (Returns hex, c')"
  shows "hex = obtained_chainId e (this_provider (fst c))"
  using assms
  unfolding read_providerChainId_def provider_request_def obtained_chainId_def
  by (auto simp: and_then_Returns split: option.splits if_splits list.splits sum.splits)

lemma persist_run:
  "persist_shimDisconnect e c = (r, c') \<Longrightarrow> r = Returns () \<and> fst c' = persisted e (fst c)"
  unfolding persist_shimDisconnect_def persisted_def
  by (auto simp: task_defs split: option.splits if_splits)

lemma chain_block_Returns:
  assumes "(case chainId of
                 None \<Rightarrow>
                   task_return \<lparr>chain_id = parseInt providerChainId, unsupported = False\<rparr>
               | Some requested \<Rightarrow>
                   if strict_neq (parseInt providerChainId) requested
                   then and_then (record_action (Call_switchChain requested)) (\<lambda>_.
                        and_then (await (switchChain e requested)) (\<lambda>newChain_id.
                        and_then (record_action (Call_isChainUnsupported newChain_id)) (\<lambda>_.
                        task_return \<lparr>chain_id = newChain_id,
                                     unsupported = isChainUnsupported e newChain_id\<rparr>)))
                   else task_return \<lparr>chain_id = parseInt providerChainId, unsupported = False\<rparr>) c
            = (Returns ch, c')"
  shows "expected_chain e chainId providerChainId = Some ch" "fst c' = fst c"
    "\<exists>l. snd c' = snd c @ l \<and> list_all (\<lambda>a. phase_of a = Chain \<and> (\<forall>v. a \<noteq> Call_parseInt v)) l"
  using assms unfolding expected_chain_def
  by (auto simp: and_then_Returns split: option.splits if_splits sum.splits)

lemma from_selectedAccount_Returns:
  assumes "connect_from_selectedAccount e chainId accounts c = (Returns r, c')"
  shows "account r = selectedAccount accounts \<and> isConnected r
         \<and> provider r = this_provider (fst c)
         \<and> expected_chain e chainId (obtained_chainId e (this_provider (fst c))) = Some (chain r)
         \<and> fst c' = persisted e (fst c)
         \<and> (\<exists>l1 l2. snd c' = snd c @ l1
                 @ Call_parseInt (obtained_chainId e (this_provider (fst c))) # l2
               \<and> list_all (\<lambda>a. phase_of a = Chain \<and> (\<forall>v. a \<noteq> Call_parseInt v)) l1
               \<and> list_all (\<lambda>a. (phase_of a = Chain \<or> phase_of a = Persistence)
                                \<and> (\<forall>v. a \<noteq> Call_parseInt v)) l2)"
proof -
  from assms obtain hex c1 ch c3 c4 where
    read: "read_providerChainId e c = (Returns hex, c1)" and
    chain: "(case chainId of
                 None \<Rightarrow>
                   task_return \<lparr>chain_id = parseInt hex, unsupported = False\<rparr>
               | Some requested \<Rightarrow>
                   if strict_neq (parseInt hex) requested
                   then and_then (record_action (Call_switchChain requested)) (\<lambda>_.
                        and_then (await (switchChain e requested)) (\<lambda>newChain_id.
                        and_then (record_action (Call_isChainUnsupported newChain_id)) (\<lambda>_.
                        task_return \<lparr>chain_id = newChain_id,
                                     unsupported = isChainUnsupported e newChain_id\<rparr>)))
                   else task_return \<lparr>chain_id = parseInt hex, unsupported = False\<rparr>)
              (fst c1, snd c1 @ [Call_parseInt hex]) = (Returns ch, c3)" and
    persist: "persist_shimDisconnect e c3 = (Returns (), c4)" and
    result: "r = \<lparr>isConnected = True, account = selectedAccount accounts, chain = ch,
                  provider = this_provider (fst c4)\<rparr>" "c' = c4"
    unfolding connect_from_selectedAccount_def and_then_Returns by auto
  have hex: "hex = obtained_chainId e (this_provider (fst c))"
    using read by (rule read_providerChainId_Returns)
  have s1: "fst c1 = fst c"
    using read by (intro unchanged_run [of "read_providerChainId e" c]) (rule keeps_waits)
  obtain l1 where l1: "snd c1 = snd c @ l1"
      "list_all (\<lambda>a. phase_of a = Chain \<and> (\<forall>v. a \<noteq> Call_parseInt v)) l1"
    using emits_run [OF emits_read_providerChainId read] by auto
  note cb = chain_block_Returns [OF chain]
  obtain l2 where l2: "snd c3 = snd c1 @ Call_parseInt hex # l2"
      "list_all (\<lambda>a. phase_of a = Chain \<and> (\<forall>v. a \<noteq> Call_parseInt v)) l2"
    using cb(3) by auto
  have s3: "fst c3 = fst c"
    using cb(2) s1 by simp
  have s4: "fst c4 = persisted e (fst c)"
    using persist_run [OF persist] s3 by simp
  obtain l3 where l3: "snd c4 = snd c3 @ l3" "list_all (\<lambda>a. phase_of a = Persistence) l3"
    using emits_run [OF emits_persist persist] by auto
  have prov: "this_provider (persisted e (fst c)) = this_provider (fst c)"
    by (simp add: persisted_def split: option.splits)
  have log: "snd c' = snd c @ l1 @ Call_parseInt hex # (l2 @ l3)"
    using l1 l2 l3 result by simp
  have rest: "list_all (\<lambda>a. (phase_of a = Chain \<or> phase_of a = Persistence)
                                \<and> (\<forall>v. a \<noteq> Call_parseInt v)) (l2 @ l3)"
    using l2(2) l3(2) by (auto simp: list_all_iff)
  have "\<exists>l1 l2. snd c' = snd c @ l1
                 @ Call_parseInt (obtained_chainId e (this_provider (fst c))) # l2
               \<and> list_all (\<lambda>a. phase_of a = Chain \<and> (\<forall>v. a \<noteq> Call_parseInt v)) l1
               \<and> list_all (\<lambda>a. (phase_of a = Chain \<or> phase_of a = Persistence)
                                \<and> (\<forall>v. a \<noteq> Call_parseInt v)) l2"
    using log rest l1(2) unfolding hex by blast
  then show ?thesis
    using result hex cb(1) s4 prov by simp
qed

lemma connect_catch_run [simp]:
  "connect_catch e err c = (r, c') \<longleftrightarrow> r = Throws (classified e err) \<and> c' = c"
  by (auto simp: connect_catch_def classified_def)

lemma connect_Returns:
  "connect v e chainId c = (Returns r, c') \<longleftrightarrow> connect_try v e chainId c = (Returns r, c')"
  by (cases v) (simp_all add: connect_part_000_def connect_metaMaskSDK_ts_def try_catch_Returns)

lemma ensure_initialized_Returns:
  assumes "ensure_initialized e c = (Returns u, c')"
  shows "isInitialized e \<or> init e = None" "fst c' = fst c"
    "\<exists>l. snd c' = snd c @ l \<and> list_all (\<lambda>a. phase_of a = Initialization) l"
proof -
  show "isInitialized e \<or> init e = None"
    using assms unfolding ensure_initialized_def
    by (auto simp: and_then_Returns split: if_splits option.splits)
  show "fst c' = fst c"
    using assms by (intro unchanged_run [of "ensure_initialized e" c]) (rule keeps_waits)
  show "\<exists>l. snd c' = snd c @ l \<and> list_all (\<lambda>a. phase_of a = Initialization) l"
    using emits_run [OF emits_ensure_initialized assms] .
qed

lemma sdk_connect_trigger_run [simp]:
  "sdk_connect_trigger e c = (r, c') \<longleftrightarrow> r = Returns () \<and> c' = (fst c, snd c @ [Sdk_connect])"
  unfolding sdk_connect_trigger_def
  by (cases "sdk_connect e") (auto simp: task_defs)

lemma waitForSDK_Returns:
  assumes "waitForSDK e c = (Returns v, c')"
  shows "outcome (waitForSDK_cell (connection e) (signals e)) = Some v" "fst c' = fst c"
    "\<exists>l. snd c' = snd c @ l @ [Resolved_wait] \<and> list_all (\<lambda>a. phase_of a = Authorization) l"
proof -
  show "outcome (waitForSDK_cell (connection e) (signals e)) = Some v"
    using assms unfolding waitForSDK_def
    by (auto simp: and_then_Returns split: if_splits option.splits)
  show "fst c' = fst c"
    using assms by (intro unchanged_run [of "waitForSDK e" c]) (rule keeps_waits)
  obtain l where l: "snd c' = snd c @ l" "list_all (\<lambda>a. phase_of a = Authorization) l"
    using emits_run [OF emits_waitForSDK assms] by auto
  have "\<exists>k. snd c' = k @ [Resolved_wait]"
    using assms unfolding waitForSDK_def
    by (auto simp: and_then_Returns split: if_splits option.splits)
  then obtain k where k: "snd c' = k @ [Resolved_wait]" ..
  have "l \<noteq> []"
  proof
    assume "l = []"
    then have "snd c' = snd c" using l by simp
    moreover have "length (snd c') > length (snd c)"
      using assms unfolding waitForSDK_def
      by (auto simp: and_then_Returns split: if_splits option.splits)
    ultimately show False by simp
  qed
  then obtain l' a where "l = l' @ [a]"
    by (metis rev_exhaust)
  with l k have "a = Resolved_wait" "snd c' = snd c @ l' @ [Resolved_wait]"
      "list_all (\<lambda>a. phase_of a = Authorization) l'"
    by auto
  then show "\<exists>l. snd c' = snd c @ l @ [Resolved_wait]
               \<and> list_all (\<lambda>a. phase_of a = Authorization) l"
    by blast
qed

lemma request_accounts_Returns:
  assumes "provider_request ''eth_requestAccounts'' (eth_requestAccounts e) c
             = (Returns accounts, c')"
  shows "accounts = obtained_accounts Part_000 e (this_provider (fst c))" "fst c' = fst c"
    "\<exists>l. snd c' = snd c @ l \<and> list_all (\<lambda>a. phase_of a = Accounts) l"
proof -
  show "accounts = obtained_accounts Part_000 e (this_provider (fst c))"
    using assms unfolding provider_request_def
    by (auto simp: and_then_Returns split: option.splits)
  show "fst c' = fst c"
    using assms
    by (intro unchanged_run
          [of "provider_request ''eth_requestAccounts'' (eth_requestAccounts e)" c])
       (rule keeps_waits)
  show "\<exists>l. snd c' = snd c @ l \<and> list_all (\<lambda>a. phase_of a = Accounts) l"
    using emits_run [OF emits_request_accounts assms] .
qed

lemma updateProviderListeners_state:
  "fst (snd (updateProviderListeners from_sdk c)) = resync_state from_sdk (fst c)"
  unfolding resync_state_def updateProviderListeners_def updateProviderListeners_steps_def
    removeListener_step_def on_step_def refresh_step_def
  by (cases from_sdk; cases "this_provider (fst c)") (simp_all add: run_steps_simps)

lemma updateProviderListeners_Returns:
  assumes "updateProviderListeners from_sdk c = (r, c')"
  shows "r = Returns ()" "fst c' = resync_state from_sdk (fst c)"
    "this_provider (fst c') = from_sdk"
    "\<exists>l. snd c' = snd c @ Call_updateProviderListeners # l
          \<and> list_all (\<lambda>a. phase_of a = Resync \<and> a \<noteq> Call_updateProviderListeners) l"
  using assms updateProviderListeners_run [of from_sdk c]
    updateProviderListeners_state [of from_sdk c]
  by auto

lemma connect_try_part_000_Returns:
  assumes "connect_try_part_000 e chainId c = (Returns r, c')"
  shows "outcome (waitForSDK_cell (connection e) (signals e)) \<noteq> None
    \<and> account r = selectedAccount (obtained_accounts Part_000 e (sdk_getProvider e))
    \<and> isConnected r \<and> provider r = sdk_getProvider e
    \<and> expected_chain e chainId (obtained_chainId e (sdk_getProvider e)) = Some (chain r)
    \<and> fst c' = persisted e (resync_state (sdk_getProvider e) (fst c))
    \<and> (\<exists>l1 l2 l3 l4.
          snd c' = snd c @ l1 @ Resolved_wait # Call_updateProviderListeners # l2 @ l3
                     @ Call_parseInt (obtained_chainId e (sdk_getProvider e)) # l4
        \<and> list_all (\<lambda>a. phase_of a = Initialization \<or> phase_of a = Trigger
                          \<or> phase_of a = Authorization) l1
        \<and> list_all (\<lambda>a. phase_of a = Resync \<and> a \<noteq> Call_updateProviderListeners) l2
        \<and> list_all (\<lambda>a. (phase_of a = Accounts \<or> phase_of a = Chain)
                          \<and> (\<forall>v. a \<noteq> Call_parseInt v)) l3
        \<and> list_all (\<lambda>a. (phase_of a = Chain \<or> phase_of a = Persistence)
                          \<and> (\<forall>v. a \<noteq> Call_parseInt v)) l4)"
proof -
  from assms obtain c1 v c3 c4 accounts c5 where
    init: "ensure_initialized e c = (Returns (), c1)" and
    wait: "waitForSDK e (fst c1, snd c1 @ [Sdk_connect]) = (Returns v, c3)" and
    sync: "updateProviderListeners (sdk_getProvider e) c3 = (Returns (), c4)" and
    req: "provider_request ''eth_requestAccounts'' (eth_requestAccounts e) c4
            = (Returns accounts, c5)" and
    tail: "connect_from_selectedAccount e chainId accounts c5 = (Returns r, c')"
    unfolding connect_try_part_000_def and_then_Returns by auto
  note i = ensure_initialized_Returns [OF init]
  note w = waitForSDK_Returns [OF wait]
  note u = updateProviderListeners_Returns [OF sync]
  note q = request_accounts_Returns [OF req]
  note t = from_selectedAccount_Returns [OF tail]
  obtain li where li: "snd c1 = snd c @ li" "list_all (\<lambda>a. phase_of a = Initialization) li"
    using i(3) by auto
  obtain lw where lw: "snd c3 = snd c1 @ [Sdk_connect] @ lw @ [Resolved_wait]"
      "list_all (\<lambda>a. phase_of a = Authorization) lw"
    using w(3) by auto
  obtain lu where lu: "snd c4 = snd c3 @ Call_updateProviderListeners # lu"
      "list_all (\<lambda>a. phase_of a = Resync \<and> a \<noteq> Call_updateProviderListeners) lu"
    using u(4) by auto
  obtain lq where lq: "snd c5 = snd c4 @ lq" "list_all (\<lambda>a. phase_of a = Accounts) lq"
    using q(3) by auto
  have s3: "fst c3 = fst c"
    using i(2) w(2) by simp
  have p5: "this_provider (fst c5) = sdk_getProvider e"
    using q(2) u(3) by simp
  have s5: "fst c5 = resync_state (sdk_getProvider e) (fst c)"
    using q(2) u(2) s3 by simp
  obtain lr lt where lt:
    "snd c' = snd c5 @ lr @ Call_parseInt (obtained_chainId e (sdk_getProvider e)) # lt"
    "list_all (\<lambda>a. phase_of a = Chain \<and> (\<forall>v. a \<noteq> Call_parseInt v)) lr"
    "list_all (\<lambda>a. (phase_of a = Chain \<or> phase_of a = Persistence)
                     \<and> (\<forall>v. a \<noteq> Call_parseInt v)) lt"
    using t p5 by auto
  have log: "snd c' = snd c @ (li @ Sdk_connect # lw) @ Resolved_wait
               # Call_updateProviderListeners # lu @ (lq @ lr)
               @ Call_parseInt (obtained_chainId e (sdk_getProvider e)) # lt"
    using li lw lu lq lt by simp
  have l1: "list_all (\<lambda>a. phase_of a = Initialization \<or> phase_of a = Trigger
                          \<or> phase_of a = Authorization) (li @ Sdk_connect # lw)"
    using li(2) lw(2) by (auto simp: list_all_iff)
  have l3: "list_all (\<lambda>a. (phase_of a = Accounts \<or> phase_of a = Chain)
                          \<and> (\<forall>v. a \<noteq> Call_parseInt v)) (lq @ lr)"
    using lq(2) lt(2) by (auto simp: list_all_iff)
  have ex: "\<exists>l1 l2 l3 l4.
          snd c' = snd c @ l1 @ Resolved_wait # Call_updateProviderListeners # l2 @ l3
                     @ Call_parseInt (obtained_chainId e (sdk_getProvider e)) # l4
        \<and> list_all (\<lambda>a. phase_of a = Initialization \<or> phase_of a = Trigger
                          \<or> phase_of a = Authorization) l1
        \<and> list_all (\<lambda>a. phase_of a = Resync \<and> a \<noteq> Call_updateProviderListeners) l2
        \<and> list_all (\<lambda>a. (phase_of a = Accounts \<or> phase_of a = Chain)
                          \<and> (\<forall>v. a \<noteq> Call_parseInt v)) l3
        \<and> list_all (\<lambda>a. (phase_of a = Chain \<or> phase_of a = Persistence)
                          \<and> (\<forall>v. a \<noteq> Call_parseInt v)) l4"
    using log l1 lu(2) l3 lt(3) by blast
  show ?thesis
    using ex t w(1) q(1) u(3) p5 s5 by simp
qed

lemma wait_if_not_authorized_Returns:
  assumes "wait_if_not_authorized e c = (Returns u, c')"
  shows "fst c' = fst c"
    "\<exists>l. snd c' = snd c @ l \<and> list_all (\<lambda>a. phase_of a = Authorization) l"
proof -
  show "fst c' = fst c"
    using assms by (intro unchanged_run [of "wait_if_not_authorized e" c]) (rule keeps_waits)
  show "\<exists>l. snd c' = snd c @ l \<and> list_all (\<lambda>a. phase_of a = Authorization) l"
    using emits_run [OF emits_wait_if_not_authorized assms] .
qed

lemma connect_try_metaMaskSDK_ts_Returns:
  assumes "connect_try_metaMaskSDK_ts e chainId c = (Returns r, c')"
  shows "account r = selectedAccount (obtained_accounts MetaMaskSDK_ts e (sdk_getProvider e))
    \<and> isConnected r \<and> provider r = sdk_getProvider e
    \<and> expected_chain e chainId (obtained_chainId e (sdk_getProvider e)) = Some (chain r)
    \<and> fst c' = persisted e (resync_state (sdk_getProvider e) (fst c))
    \<and> (\<exists>accounts. sdk_connect e = Inr accounts)
    \<and> (\<exists>l1 l2 l3 l4.
          snd c' = snd c @ l1 @ Sdk_connect # Call_updateProviderListeners # l2 @ l3
                     @ Call_parseInt (obtained_chainId e (sdk_getProvider e)) # l4
        \<and> list_all (\<lambda>a. phase_of a = Initialization) l1
        \<and> list_all (\<lambda>a. phase_of a = Resync \<and> a \<noteq> Call_updateProviderListeners) l2
        \<and> list_all (\<lambda>a. (phase_of a = Authorization \<or> phase_of a = Chain)
                          \<and> (\<forall>v. a \<noteq> Call_parseInt v)) l3
        \<and> list_all (\<lambda>a. (phase_of a = Chain \<or> phase_of a = Persistence)
                          \<and> (\<forall>v. a \<noteq> Call_parseInt v)) l4)"
proof -
  from assms obtain c1 accounts c4 c5 where
    init: "ensure_initialized e c = (Returns (), c1)" and
    acc: "sdk_connect e = Inr accounts" and
    sync: "updateProviderListeners (sdk_getProvider e) (fst c1, snd c1 @ [Sdk_connect])
             = (Returns (), c4)" and
    wait: "wait_if_not_authorized e c4 = (Returns (), c5)" and
    tail: "connect_from_selectedAccount e chainId accounts c5 = (Returns r, c')"
    unfolding connect_try_metaMaskSDK_ts_def and_then_Returns by auto
  note i = ensure_initialized_Returns [OF init]
  note u = updateProviderListeners_Returns [OF sync]
  note w = wait_if_not_authorized_Returns [OF wait]
  note t = from_selectedAccount_Returns [OF tail]
  obtain li where li: "snd c1 = snd c @ li" "list_all (\<lambda>a. phase_of a = Initialization) li"
    using i(3) by auto
  obtain lu where lu: "snd c4 = snd c1 @ Sdk_connect # Call_updateProviderListeners # lu"
      "list_all (\<lambda>a. phase_of a = Resync \<and> a \<noteq> Call_updateProviderListeners) lu"
    using u(4) by auto
  obtain lw where lw: "snd c5 = snd c4 @ lw" "list_all (\<lambda>a. phase_of a = Authorization) lw"
    using w(2) by auto
  have p5: "this_provider (fst c5) = sdk_getProvider e"
    using w(1) u(3) by simp
  have s5: "fst c5 = resync_state (sdk_getProvider e) (fst c)"
    using w(1) u(2) i(2) by simp
  obtain lr lt where lt:
    "snd c' = snd c5 @ lr @ Call_parseInt (obtained_chainId e (sdk_getProvider e)) # lt"
    "list_all (\<lambda>a. phase_of a = Chain \<and> (\<forall>v. a \<noteq> Call_parseInt v)) lr"
    "list_all (\<lambda>a. (phase_of a = Chain \<or> phase_of a = Persistence)
                     \<and> (\<forall>v. a \<noteq> Call_parseInt v)) lt"
    using t p5 by auto
  have log: "snd c' = snd c @ li @ Sdk_connect # Call_updateProviderListeners # lu @ (lw @ lr)
               @ Call_parseInt (obtained_chainId e (sdk_getProvider e)) # lt"
    using li lu lw lt by simp
  have l3: "list_all (\<lambda>a. (phase_of a = Authorization \<or> phase_of a = Chain)
                          \<and> (\<forall>v. a \<noteq> Call_parseInt v)) (lw @ lr)"
    using lw(2) lt(2) by (auto simp: list_all_iff)
  have ex: "\<exists>l1 l2 l3 l4.
          snd c' = snd c @ l1 @ Sdk_connect # Call_updateProviderListeners # l2 @ l3
                     @ Call_parseInt (obtained_chainId e (sdk_getProvider e)) # l4
        \<and> list_all (\<lambda>a. phase_of a = Initialization) l1
        \<and> list_all (\<lambda>a. phase_of a = Resync \<and> a \<noteq> Call_updateProviderListeners) l2
        \<and> list_all (\<lambda>a. (phase_of a = Authorization \<or> phase_of a = Chain)
                          \<and> (\<forall>v. a \<noteq> Call_parseInt v)) l3
        \<and> list_all (\<lambda>a. (phase_of a = Chain \<or> phase_of a = Persistence)
                          \<and> (\<forall>v. a \<noteq> Call_parseInt v)) l4"
    using log li(2) lu(2) l3 lt(3) by blast
  show ?thesis
    using ex t acc p5 s5 by simp
qed

section \<open>What a successful \<^verbatim>\<open>connect\<close> returns\<close>

lemma connect_Returns_summary:
  assumes "fst (connect v e chainId c) = Returns r"
  shows "account r = selectedAccount (obtained_accounts v e (sdk_getProvider e))"
    "isConnected r" "provider r = sdk_getProvider e"
    "expected_chain e chainId (obtained_chainId e (sdk_getProvider e)) = Some (chain r)"
    "fst (snd (connect v e chainId c)) = persisted e (resync_state (sdk_getProvider e) (fst c))"
proof -
  obtain c' where whole: "connect v e chainId c = (Returns r, c')"
    using assms by (cases "connect v e chainId c") simp
  then have run: "connect_try v e chainId c = (Returns r, c')"
    by (simp only: connect_Returns)
  have c': "snd (connect v e chainId c) = c'"
    using whole by simp
  have "account r = selectedAccount (obtained_accounts v e (sdk_getProvider e))
    \<and> isConnected r \<and> provider r = sdk_getProvider e
    \<and> expected_chain e chainId (obtained_chainId e (sdk_getProvider e)) = Some (chain r)
    \<and> fst c' = persisted e (resync_state (sdk_getProvider e) (fst c))"
  proof (cases v)
    case Part_000
    then show ?thesis
      using connect_try_part_000_Returns [of e chainId c r c'] run by simp
  next
    case MetaMaskSDK_ts
    then show ?thesis
      using connect_try_metaMaskSDK_ts_Returns [of e chainId c r c'] run by simp
  qed
  then show "account r = selectedAccount (obtained_accounts v e (sdk_getProvider e))"
    "isConnected r" "provider r = sdk_getProvider e"
    "expected_chain e chainId (obtained_chainId e (sdk_getProvider e)) = Some (chain r)"
    "fst (snd (connect v e chainId c)) = persisted e (resync_state (sdk_getProvider e) (fst c))"
    using c' by simp_all
qed

lemmas js_defs =
  parseInt_def parseInt_string_def strip_sign_def strip_prefix_0x_def is_white_space_def
  hex_digit_def hex_value_def to_double_def strict_neq_def selectedAccount_def

lemmas connect_defs =
  connect_part_000_def connect_try_part_000_def connect_metaMaskSDK_ts_def
  connect_try_metaMaskSDK_ts_def connect_from_selectedAccount_def connect_catch_def
  ensure_initialized_def sdk_connect_trigger_def waitForSDK_def waitForAuthorized_def
  wait_if_not_authorized_def provider_request_def read_providerChainId_def
  persist_shimDisconnect_def updateProviderListeners_def updateProviderListeners_steps_def
  removeListener_step_def refresh_step_def on_step_def run_steps_simps
  provider_on_def provider_removeListener_def remove_last_def
  waitForSDK_cell_def waitForSDK_executor_def waitForAuthorized_cell_def deliver_all_def
  resolve_def

lemmas example_defs = example_env_def example_state_def scenario_2_env_def scenario_4_env_def

lemma resync_state_fields:
  "this_storage (resync_state from_sdk s) = this_storage s"
  "this_options (resync_state from_sdk s) = this_options s"
  "this_provider (resync_state from_sdk s) = from_sdk"
  using updateProviderListeners_run [of from_sdk "(s, [])"]
  by (auto simp: resync_state_def)

text \<open>
  Claim C1. Start from a state in which no tracked handler is subscribed anywhere (the
  constructor subscribes nothing) and run any sequence of \<^verbatim>\<open>connect\<close> (of either
  version), \<^verbatim>\<open>disconnect\<close> and \<^verbatim>\<open>getProvider\<close> calls, whatever the collaborators
  answer. In the state reached, and at every point of a listener resync started there
  (after each single \<^verbatim>\<open>removeListener\<close>, the refresh of \<^verbatim>\<open>#provider\<close> and each single
  \<^verbatim>\<open>on\<close>), every tracked handler is subscribed at most once, and only on the provider
  held in \<^verbatim>\<open>#provider\<close>. Two resyncs in a row, whatever the SDK returns to each, leave
  \<^verbatim>\<open>#provider\<close> at what the SDK returned last and each of the three handlers subscribed
  exactly once there and nowhere else. (The resync is the only code of \<^verbatim>\<open>connect\<close> that
  touches \<^verbatim>\<open>#provider\<close> or a listener table; when the SDK returns no provider there is
  none to subscribe to and no handler is subscribed.)
\<close>

theorem listeners_follow_current_provider:
  assumes "none_subscribed s0"
  shows "list_all (\<lambda>c. listeners_synced (fst c))
           (trajectory (updateProviderListeners_steps from_sdk (run_operations ops s0))
              (run_operations ops s0, l))
         \<and> resynced_to second
             (fst (snd (and_then (updateProviderListeners first)
                          (\<lambda>_. updateProviderListeners second)
                          (run_operations ops s0, l))))"
proof -
  have synced: "listeners_synced (run_operations ops s0)"
    using assms by (intro run_operations_synced none_subscribed_synced)
  show ?thesis
  proof
    show "list_all (\<lambda>c. listeners_synced (fst c))
            (trajectory (updateProviderListeners_steps from_sdk (run_operations ops s0))
               (run_operations ops s0, l))"
      using synced by (rule resync_trajectory_synced)
    show "resynced_to second
            (fst (snd (and_then (updateProviderListeners first)
                         (\<lambda>_. updateProviderListeners second)
                         (run_operations ops s0, l))))"
      using synced by (intro updateProviderListeners_twice) simp
  qed
qed

theorem listeners_follow_current_provider_witness:
  "none_subscribed example_state
   \<and> list_all (\<lambda>c. listeners_synced (fst c))
       (trajectory
          (updateProviderListeners_steps (Some 3) (run_operations example_operations example_state))
          (run_operations example_operations example_state, []))
   \<and> resynced_to (Some 4)
       (fst (snd (and_then (updateProviderListeners (Some 3))
                    (\<lambda>_. updateProviderListeners (Some 4))
                    (run_operations example_operations example_state, []))))"
proof -
  have start: "none_subscribed example_state"
    by (simp add: none_subscribed_def example_state_def tracked_def subscribers_def)
  show ?thesis
    using start
      listeners_follow_current_provider [OF start, of "Some 3" example_operations "[]"
        "Some 4" "Some 3"]
    by simp
qed

text \<open>
  Claim C6. For a \<^verbatim>\<open>connect\<close> call of either version that returns a response, let
  \<open>hex\<close> be the chain id string obtained from the provider the SDK returned at the
  resync: its \<^verbatim>\<open>chainId\<close> field when that is a non-empty string, and otherwise what its
  \<^verbatim>\<open>eth_chainId\<close> request resolved to. If no \<^verbatim>\<open>chainId\<close> was requested, or the
  requested one is not \<^verbatim>\<open>!==\<close> to \<^verbatim>\<open>parseInt(hex, 16)\<close>, then \<^verbatim>\<open>chain.id\<close> is
  \<^verbatim>\<open>parseInt(hex, 16)\<close> and \<^verbatim>\<open>chain.unsupported\<close> is false. If one was requested and
  is \<^verbatim>\<open>!==\<close> to it, then the base class's \<^verbatim>\<open>switchChain\<close> resolved to a chain, and
  \<^verbatim>\<open>chain.id\<close> is that chain's id and \<^verbatim>\<open>chain.unsupported\<close> is \<^verbatim>\<open>isChainUnsupported\<close>
  of that id. (Equality of numbers is JavaScript's: NaN, the parse of a string without
  a hexadecimal digit, differs from every requested id.)
\<close>

theorem connect_chain:
  assumes "fst (connect v e chainId c) = Returns r"
  shows "((chainId = None
           \<or> (\<exists>requested. chainId = Some requested
                 \<and> \<not> strict_neq (parseInt (obtained_chainId e (sdk_getProvider e))) requested))
          \<longrightarrow> chain r = \<lparr>chain_id = parseInt (obtained_chainId e (sdk_getProvider e)),
                         unsupported = False\<rparr>)
       \<and> (\<forall>requested.
            chainId = Some requested
            \<and> strict_neq (parseInt (obtained_chainId e (sdk_getProvider e))) requested
            \<longrightarrow> (\<exists>new. switchChain e requested = Inr new
                   \<and> chain r = \<lparr>chain_id = new, unsupported = isChainUnsupported e new\<rparr>))"
  using connect_Returns_summary(4) [OF assms]
  unfolding expected_chain_def
  by (auto split: option.splits if_splits sum.splits)

theorem connect_chain_witness:
  "fst (connect Part_000 scenario_2_env (Some (Num 137)) (example_state, []))
     = Returns \<lparr>isConnected = True, account = ''0xabc'',
                chain = \<lparr>chain_id = Num 137, unsupported = True\<rparr>, provider = Some 1\<rparr>
   \<and> parseInt (obtained_chainId scenario_2_env (sdk_getProvider scenario_2_env)) = Num 1
   \<and> switchChain scenario_2_env (Num 137) = Inr (Num 137)
   \<and> isChainUnsupported scenario_2_env (Num 137)
   \<and> fst (connect MetaMaskSDK_ts example_env None (example_state, []))
     = Returns \<lparr>isConnected = True, account = ''0xabc'',
                chain = \<lparr>chain_id = Num 1, unsupported = False\<rparr>, provider = Some 1\<rparr>"
proof -
  have run2: "fst (connect Part_000 scenario_2_env (Some (Num 137)) (example_state, []))
     = Returns \<lparr>isConnected = True, account = ''0xabc'',
                chain = \<lparr>chain_id = Num 137, unsupported = True\<rparr>, provider = Some 1\<rparr>"
    by (simp add: example_defs connect_defs task_defs js_defs)
  have run1: "fst (connect MetaMaskSDK_ts example_env None (example_state, []))
     = Returns \<lparr>isConnected = True, account = ''0xabc'',
                chain = \<lparr>chain_id = Num 1, unsupported = False\<rparr>, provider = Some 1\<rparr>"
    by (simp add: example_defs connect_defs task_defs js_defs)
  show ?thesis
    using connect_chain [OF run2] connect_chain [OF run1] run1 run2
    by (simp add: example_defs obtained_chainId_def js_defs)
qed

text \<open>
  Claim C7. For a \<^verbatim>\<open>connect\<close> call of either version that returns a response: when the
  account list obtained (what \<^verbatim>\<open>eth_requestAccounts\<close> resolved to on the provider in
  part_000, what the SDK's \<^verbatim>\<open>connect()\<close> resolved to in metaMaskSDK.ts) is missing or
  empty, \<^verbatim>\<open>account\<close> is the literal \<^verbatim>\<open>0x\<close>; otherwise it is the first element of the
  list.
\<close>

theorem connect_account:
  assumes "fst (connect v e chainId c) = Returns r"
  shows "(case obtained_accounts v e (sdk_getProvider e) of
            None \<Rightarrow> account r = ''0x''
          | Some [] \<Rightarrow> account r = ''0x''
          | Some (first # others) \<Rightarrow> account r = first)"
  using connect_Returns_summary(1) [OF assms]
  by (simp add: selectedAccount_def split: option.splits list.splits)

theorem connect_account_witness:
  "fst (connect Part_000 scenario_4_env None (example_state, []))
     = Returns \<lparr>isConnected = True, account = ''0x'',
                chain = \<lparr>chain_id = Num 1, unsupported = False\<rparr>, provider = Some 1\<rparr>
   \<and> obtained_accounts Part_000 scenario_4_env (sdk_getProvider scenario_4_env) = Some []
   \<and> fst (connect MetaMaskSDK_ts example_env None (example_state, []))
     = Returns \<lparr>isConnected = True, account = ''0xabc'',
                chain = \<lparr>chain_id = Num 1, unsupported = False\<rparr>, provider = Some 1\<rparr>
   \<and> obtained_accounts MetaMaskSDK_ts example_env (sdk_getProvider example_env)
     = Some [''0xabc'']"
proof -
  have run4: "fst (connect Part_000 scenario_4_env None (example_state, []))
     = Returns \<lparr>isConnected = True, account = ''0x'',
                chain = \<lparr>chain_id = Num 1, unsupported = False\<rparr>, provider = Some 1\<rparr>"
    by (simp add: example_defs connect_defs task_defs js_defs)
  have run1: "fst (connect MetaMaskSDK_ts example_env None (example_state, []))
     = Returns \<lparr>isConnected = True, account = ''0xabc'',
                chain = \<lparr>chain_id = Num 1, unsupported = False\<rparr>, provider = Some 1\<rparr>"
    by (simp add: example_defs connect_defs task_defs js_defs)
  show ?thesis
    using connect_account [OF run4] connect_account [OF run1] run1 run4
    by (simp add: example_defs)
qed

text \<open>
  Claim C9. In either version the constructor throws the error
  \<^verbatim>\<open>MetaMaskConnector invalid sdk parameters\<close>, having made no call at all (so before
  any SDK instance is created), exactly when its options are missing or carry neither
  \<^verbatim>\<open>sdk\<close> nor \<^verbatim>\<open>sdkOptions\<close>; with at least one of the two it constructs the connector.
\<close>

theorem constructor_requires_sdk:
  "(snd (constructor v provider_of opts) = Inl invalid_sdk_parameters
      \<and> fst (constructor v provider_of opts) = [])
     = (case opts of None \<Rightarrow> True | Some given \<Rightarrow> sdk given = None \<and> sdkOptions given = None)
   \<and> (\<exists>k. snd (constructor v provider_of opts) = Inr k)
     = (\<exists>given. opts = Some given \<and> (sdk given \<noteq> None \<or> sdkOptions given \<noteq> None))"
  by (cases v; cases opts)
     (auto simp: constructor_part_000_def constructor_metaMaskSDK_ts_def Let_def
        split: option.splits prod.splits)

theorem constructor_requires_sdk_witness:
  "constructor Part_000 example_provider_of None = ([], Inl invalid_sdk_parameters)
   \<and> constructor MetaMaskSDK_ts example_provider_of
       (Some \<lparr>debug = Some True, sdk = None, sdkOptions = None\<rparr>)
     = ([], Inl invalid_sdk_parameters)
   \<and> (\<exists>k. snd (constructor Part_000 example_provider_of (Some example_options)) = Inr k)
   \<and> (\<exists>k. snd (constructor MetaMaskSDK_ts example_provider_of
               (Some \<lparr>debug = None, sdk = Some 5, sdkOptions = None\<rparr>)) = Inr k)"
  using constructor_requires_sdk [of Part_000 example_provider_of None]
    constructor_requires_sdk [of MetaMaskSDK_ts example_provider_of
      "Some \<lparr>debug = Some True, sdk = None, sdkOptions = None\<rparr>"]
    constructor_requires_sdk [of Part_000 example_provider_of "Some example_options"]
    constructor_requires_sdk [of MetaMaskSDK_ts example_provider_of
      "Some \<lparr>debug = None, sdk = Some 5, sdkOptions = None\<rparr>"]
  by (simp add: example_options_def prod_eq_iff)

text \<open>
  Claim C10. Whatever options the caller gives, the options object a successful
  constructor of either version passes to \<^verbatim>\<open>super\<close> has \<^verbatim>\<open>shimDisconnect\<close> true. So
  for a connector whose \<^verbatim>\<open>this.options\<close> is that object, every \<^verbatim>\<open>connect\<close> call that
  returns a response has set the shim-disconnect key of the connector's storage to
  true and changed nothing else in it. The write is the optional call
  \<^verbatim>\<open>this.storage?.setItem(...)\<close>: a connector that was given no storage has none
  afterwards either.
\<close>

theorem shimDisconnect_always_persisted:
  assumes "snd (constructor v provider_of opts) = Inr k"
    and "this_options s = Some (super_options k)"
    and "fst (connect v e chainId (s, l)) = Returns r"
  shows "shimDisconnect (super_options k)
       \<and> Call_super (super_options k) \<in> set (fst (constructor v provider_of opts))
       \<and> this_storage (fst (snd (connect v e chainId (s, l))))
         = (case this_storage s of
              None \<Rightarrow> None
            | Some m \<Rightarrow> Some (m(shimDisconnectKey e \<mapsto> True)))"
proof -
  have forced: "shimDisconnect (super_options k)
       \<and> Call_super (super_options k) \<in> set (fst (constructor v provider_of opts))"
    using assms(1)
    by (cases v; cases opts)
       (auto simp: constructor_part_000_def constructor_metaMaskSDK_ts_def Let_def
          split: option.splits prod.splits if_splits)
  have "fst (snd (connect v e chainId (s, l))) = persisted e (resync_state (sdk_getProvider e) s)"
    using connect_Returns_summary(5) [OF assms(3)] by simp
  then show ?thesis
    using forced assms(2)
    by (simp add: persisted_def resync_state_fields split: option.splits)
qed

theorem shimDisconnect_always_persisted_witness:
  "snd (constructor Part_000 example_provider_of (Some example_options))
     = Inr \<lparr>constructed_sdk = Constructed (sdkOptions example_options),
            constructed_provider = None, constructed_debug = True,
            super_options = \<lparr>name = ''MetaMask'', shimDisconnect = True,
                              getProvider_option = None\<rparr>\<rparr>
   \<and> this_storage (fst (snd (connect Part_000 example_env None
        (state_after_constructor
           \<lparr>constructed_sdk = Constructed (sdkOptions example_options),
            constructed_provider = None, constructed_debug = True,
            super_options = \<lparr>name = ''MetaMask'', shimDisconnect = True,
                              getProvider_option = None\<rparr>\<rparr>
           (Some Map.empty) [], []))))
     = Some [''metaMaskSDK.shimDisconnect'' \<mapsto> True]"
proof -
  let ?k = "\<lparr>constructed_sdk = Constructed (sdkOptions example_options),
            constructed_provider = None, constructed_debug = True,
            super_options = \<lparr>name = ''MetaMask'', shimDisconnect = True,
                              getProvider_option = None\<rparr>\<rparr>"
  have made: "snd (constructor Part_000 example_provider_of (Some example_options)) = Inr ?k"
    by (simp add: constructor_part_000_def example_options_def example_provider_of_def Let_def)
  have opts: "this_options (state_after_constructor ?k (Some Map.empty) [])
                = Some (super_options ?k)"
    by (simp add: state_after_constructor_def)
  have run: "fst (connect Part_000 example_env None
                    (state_after_constructor ?k (Some Map.empty) [], []))
               = Returns \<lparr>isConnected = True, account = ''0xabc'',
                   chain = \<lparr>chain_id = Num 1, unsupported = False\<rparr>, provider = Some 1\<rparr>"
    by (simp add: example_defs state_after_constructor_def connect_defs task_defs js_defs)
  show ?thesis
    using made shimDisconnect_always_persisted [OF made opts run]
    by (simp add: state_after_constructor_def example_env_def)
qed

end
